(* ===== verification/Prelude.thy ===== *)
theory Prelude
  imports Complex_Main "HOL-Library.Word" "HOL-Library.Signed_Division"
begin

text \<open>
  Shared vocabulary of the development: the machine types of the Go program
  (\<open>int64\<close> for \<open>time.Duration\<close> and monotonic clock readings), the runtime
  panic that indexing can raise, and Go's decimal formatting of integers
  (\<open>fmt.Sprintf("%d", n)\<close>, i.e.\ \<open>strconv.Itoa\<close>) with a reader for it and the
  roundtrip between the two. The collection \<open>model_simps\<close> gathers the rules a
  witness needs to evaluate the model on concrete inputs.
\<close>

named_theorems model_simps "rules that evaluate the model on closed inputs"

type_synonym int64 = "64 word"

text \<open>A Go runtime panic. \<open>IndexOutOfRange i n\<close> is the panic
  \<open>index out of range [i] with length n\<close>.\<close>

datatype go_panic = IndexOutOfRange nat nat

subsection \<open>Decimal formatting of integers (\<open>%d\<close>)\<close>

definition digit_char :: "nat \<Rightarrow> char" where
  "digit_char d = char_of (48 + d)"

fun nat_digits :: "nat \<Rightarrow> string" where
  "nat_digits n = (if n < 10 then [digit_char n] else nat_digits (n div 10) @ [digit_char (n mod 10)])"

declare nat_digits.simps [simp del, model_simps]

text \<open>\<open>strconv.Itoa\<close>: a minus sign, then the digits of the magnitude.\<close>

definition go_itoa :: "int \<Rightarrow> string" where
  "go_itoa i = (if i < 0 then CHR ''-'' # nat_digits (nat (- i)) else nat_digits (nat i))"

subsection \<open>Reading decimal digits back\<close>

definition is_digit :: "char \<Rightarrow> bool" where
  "is_digit c \<longleftrightarrow> (48::nat) \<le> of_char c \<and> of_char c \<le> (57::nat)"

definition digit_val :: "char \<Rightarrow> nat" where
  "digit_val c = of_char c - (48::nat)"

definition digits_val :: "string \<Rightarrow> nat" where
  "digits_val s = foldl (\<lambda>acc c. 10 * acc + digit_val c) 0 s"

definition parse_nat :: "string \<Rightarrow> nat option" where
  "parse_nat s = (if s \<noteq> [] \<and> list_all is_digit s then Some (digits_val s) else None)"

definition parse_int :: "string \<Rightarrow> int option" where
  "parse_int s = (case s of
       c # r \<Rightarrow> if c = CHR ''-'' then map_option (\<lambda>n. - int n) (parse_nat r)
                else map_option int (parse_nat s)
     | [] \<Rightarrow> None)"

subsection \<open>Lemmas on digits\<close>

lemma digit_char_simps [model_simps]:
  "digit_char 0 = CHR ''0''" "digit_char 1 = CHR ''1''" "digit_char (Suc 0) = CHR ''1''" "digit_char 2 = CHR ''2''"
  "digit_char 3 = CHR ''3''" "digit_char 4 = CHR ''4''" "digit_char 5 = CHR ''5''"
  "digit_char 6 = CHR ''6''" "digit_char 7 = CHR ''7''" "digit_char 8 = CHR ''8''"
  "digit_char 9 = CHR ''9''"
  unfolding digit_char_def by code_simp+

lemma digit_char_digit [simp]: "d < 10 \<Longrightarrow> is_digit (digit_char d)"
  by (simp add: digit_char_def is_digit_def)

lemma digit_val_digit_char [simp]: "d < 10 \<Longrightarrow> digit_val (digit_char d) = d"
  by (simp add: digit_char_def digit_val_def)

lemma digits_val_snoc [simp]: "digits_val (s @ [c]) = 10 * digits_val s + digit_val c"
  by (simp add: digits_val_def)

lemma digits_val_single [simp]: "digits_val [c] = digit_val c"
  by (simp add: digits_val_def)

lemma nat_digits_nonempty [simp]: "nat_digits n \<noteq> []"
  by (subst nat_digits.simps) simp

lemma nat_digits_all_digits [simp]: "list_all is_digit (nat_digits n)"
proof (induction n rule: nat_digits.induct)
  case (1 n)
  then show ?case by (subst nat_digits.simps) simp
qed

lemma set_nat_digits [simp]: "c \<in> set (nat_digits n) \<Longrightarrow> is_digit c"
  using nat_digits_all_digits [of n] by (simp add: list_all_iff)

lemma digits_val_nat_digits [simp]: "digits_val (nat_digits n) = n"
proof (induction n rule: nat_digits.induct)
  case (1 n)
  then show ?case by (subst nat_digits.simps) simp
qed

lemma parse_nat_nat_digits [simp]: "parse_nat (nat_digits n) = Some n"
  by (simp add: parse_nat_def)

lemma minus_not_digit [simp]: "\<not> is_digit CHR ''-''"
  by (simp add: is_digit_def)

lemma nat_digits_hd_not_minus [simp]: "nat_digits n = c # r \<Longrightarrow> c \<noteq> CHR ''-''"
  using set_nat_digits [of c n] by auto

lemma takeWhile_digits_append [simp]:
  "(ys = [] \<or> \<not> is_digit (hd ys)) \<Longrightarrow> takeWhile is_digit (nat_digits n @ ys) = nat_digits n"
  by (cases ys) auto

lemma dropWhile_digits_append [simp]:
  "(ys = [] \<or> \<not> is_digit (hd ys)) \<Longrightarrow> dropWhile is_digit (nat_digits n @ ys) = ys"
  by (cases ys) auto

lemma length_nat_digits: "n < 10 ^ w \<Longrightarrow> 0 < w \<Longrightarrow> length (nat_digits n) \<le> w"
proof (induction n arbitrary: w rule: nat_digits.induct)
  case (1 n)
  show ?case
  proof (cases "n < 10")
    case True
    then show ?thesis
      using "1.prems" by (subst nat_digits.simps) simp
  next
    case False
    then obtain w' where w: "w = Suc w'"
      using "1.prems" by (cases w) auto
    have "n div 10 < 10 ^ w'"
      using "1.prems" w by (simp add: less_mult_imp_div_less mult.commute)
    moreover have "0 < w'"
      using "1.prems" False w by (cases w') auto
    ultimately have "length (nat_digits (n div 10)) \<le> w'"
      using "1.IH" False by blast
    then show ?thesis
      using False w by (subst nat_digits.simps) simp
  qed
qed

lemma zero_digit [simp]: "is_digit CHR ''0''" "digit_val CHR ''0'' = 0"
  by (simp_all add: is_digit_def digit_val_def)

lemma digits_val_zeros [simp]: "digits_val (replicate k CHR ''0'' @ s) = digits_val s"
proof -
  have "foldl (\<lambda>acc c. 10 * acc + digit_val c) 0 (replicate k CHR ''0'') = 0"
    by (induction k) simp_all
  then show ?thesis
    by (simp add: digits_val_def)
qed

lemma nat_digits_inj: "nat_digits m = nat_digits n \<Longrightarrow> m = n"
  by (metis digits_val_nat_digits)

subsection \<open>Integer division\<close>

text \<open>The quotient from a division equation with its remainder in range.\<close>

lemma div_int_eqI: "0 \<le> r \<Longrightarrow> r < b \<Longrightarrow> a = b * q + r \<Longrightarrow> a div (b::int) = q"
  by (simp add: div_add1_eq)

text \<open>Go's truncating division on non-negative operands.\<close>

lemma sdiv_nonneg [simp]: "0 \<le> k \<Longrightarrow> 0 < (l::int) \<Longrightarrow> k sdiv l = k div l"
  by (auto simp: signed_divide_int_def sgn_if)

lemma smod_nonneg [simp]: "0 \<le> k \<Longrightarrow> 0 < (l::int) \<Longrightarrow> k smod l = k mod l"
  by (auto simp: signed_modulo_int_def sgn_if)

lemma go_itoa_nonneg [simp]: "0 \<le> i \<Longrightarrow> go_itoa i = nat_digits (nat i)"
  by (simp add: go_itoa_def)

lemma parse_int_go_itoa [simp]: "parse_int (go_itoa i) = Some i"
proof (cases "i < 0")
  case True
  then show ?thesis by (simp add: go_itoa_def parse_int_def)
next
  case False
  obtain c r where cr: "nat_digits (nat i) = c # r"
    by (cases "nat_digits (nat i)") auto
  then have "c \<noteq> CHR ''-''" by simp
  with False cr show ?thesis
    by (simp add: go_itoa_def parse_int_def del: parse_nat_nat_digits)
       (metis parse_nat_nat_digits nat_0_le not_le cr int_nat_eq)
qed

end
