(* ===== verification/GoTime.thy ===== *)
theory GoTime
  imports Prelude
begin

text \<open>
  Elapsed whole seconds, as \<open>getUptime\<close> computes them in \<open>src/app_go/main.go\<close>
  (lines 14, 67--68): \<open>delta := time.Since(startTime)\<close> and
  \<open>seconds := int(delta.Seconds())\<close>.

  \<^item> \<open>time.Since\<close> with a monotonic start reading subtracts the two monotonic
    clock readings as \<open>int64\<close> nanoseconds and saturates on overflow (the Go
    runtime's \<open>subMono\<close>): \<open>sub_mono\<close>.
  \<^item> \<open>Duration.Seconds\<close> is \<open>float64(sec) + float64(nsec)/1e9\<close> with
    \<open>sec = d / 1e9\<close>, \<open>nsec = d % 1e9\<close> (Go's truncating \<open>/\<close>, \<open>%\<close>):
    \<open>duration_seconds\<close>. Each float64 operation rounds its exact result to 53
    significant bits, ties to even (\<open>f64_round\<close>). A float64 is a sign, a
    significand and a binary exponent (\<open>f64\<close>); only finite values of the normal
    range occur here (magnitudes between \<open>2^-30\<close> and \<open>2^34\<close>), so infinities,
    NaN and subnormals are not modelled, and \<open>f64_div\<close> assumes a non-zero divisor
    (it is always the constant \<open>1e9\<close>).
  \<^item> \<open>int(f)\<close> truncates toward zero: \<open>f64_trunc\<close>.

  The model is executable on naturals and integers; its agreement with IEEE-754
  doubles is what the lemmas below establish on the rationals (\<open>f64_val\<close>,
  \<open>rounds_to\<close>). The results: the whole seconds are the truncated quotient
  \<open>d div 10^9\<close> or one more, exactly the quotient while it is below \<open>2^24\<close>
  (about 194 days), and they never decrease as the clock advances. Past
  \<open>2^24\<close> seconds a fraction close to 1 rounds up (\<open>uptime_seconds_of_carry\<close>).
\<close>

subsection \<open>Monotonic clock difference (\<open>time.Since\<close>, main.go 67)\<close>

definition max_duration :: int64 where
  "max_duration = word_of_int (2 ^ 63 - 1)"

definition min_duration :: int64 where
  "min_duration = word_of_int (- (2 ^ 63))"

text \<open>\<open>subMono(t, u)\<close>: \<open>d := Duration(t - u)\<close>; if \<open>d < 0 && t > u\<close> return
  \<open>maxDuration\<close>; if \<open>d > 0 && t < u\<close> return \<open>minDuration\<close>; return \<open>d\<close>.\<close>

definition sub_mono :: "int64 \<Rightarrow> int64 \<Rightarrow> int64" where
  "sub_mono t u =
     (let d = t - u
      in if sint d < 0 \<and> sint t > sint u then max_duration
         else if sint d > 0 \<and> sint t < sint u then min_duration
         else d)"

subsection \<open>Float64 arithmetic (\<open>Duration.Seconds\<close>, \<open>int()\<close>, main.go 68)\<close>

fun nbits :: "nat \<Rightarrow> nat" where
  "nbits n = (if n = 0 then 0 else Suc (nbits (n div 2)))"

declare nbits.simps [simp del, model_simps]

record f64 =
  f_neg :: bool
  f_mant :: nat
  f_exp :: int

text \<open>Rounding of \<open>num / den\<close> to the nearest integer, ties to even.\<close>

definition rne_div :: "nat \<Rightarrow> nat \<Rightarrow> nat" where
  "rne_div num den =
     (let m0 = num div den; r = num mod den
      in if den < 2 * r \<or> (2 * r = den \<and> odd m0) then Suc m0 else m0)"

text \<open>The exponent \<open>e\<close> with \<open>2^52 \<le> n/d / 2^e < 2^53\<close>, from the bit lengths.\<close>

definition f64_binade :: "nat \<Rightarrow> nat \<Rightarrow> int" where
  "f64_binade n d =
     (let e0 = int (nbits n) - int (nbits d) - 53
      in if d * 2 ^ nat (53 + e0) \<le> n * 2 ^ nat (- (53 + e0)) then e0 + 1 else e0)"

definition f64_round :: "nat \<Rightarrow> nat \<Rightarrow> nat \<times> int" where
  "f64_round n d =
     (if n = 0 then (0, 0)
      else let e = f64_binade n d in (rne_div (n * 2 ^ nat (- e)) (d * 2 ^ nat e), e))"

definition f64_of_frac :: "bool \<Rightarrow> nat \<Rightarrow> nat \<Rightarrow> f64" where
  "f64_of_frac neg n d = (case f64_round n d of (m, e) \<Rightarrow> \<lparr>f_neg = neg, f_mant = m, f_exp = e\<rparr>)"

definition f64_of_int :: "int \<Rightarrow> f64" where
  "f64_of_int i = f64_of_frac (i < 0) (nat \<bar>i\<bar>) 1"

definition f64_div :: "f64 \<Rightarrow> f64 \<Rightarrow> f64" where
  "f64_div a b =
     f64_of_frac (f_neg a \<noteq> f_neg b)
       (f_mant a * 2 ^ nat (f_exp a - f_exp b)) (f_mant b * 2 ^ nat (f_exp b - f_exp a))"

definition f64_signed :: "f64 \<Rightarrow> int \<Rightarrow> int" where
  "f64_signed a e = (if f_neg a then -1 else 1) * int (f_mant a * 2 ^ nat (f_exp a - e))"

definition f64_add :: "f64 \<Rightarrow> f64 \<Rightarrow> f64" where
  "f64_add a b =
     (let e = min (f_exp a) (f_exp b); s = f64_signed a e + f64_signed b e
      in f64_of_frac (s < 0) (nat \<bar>s\<bar> * 2 ^ nat e) (2 ^ nat (- e)))"

definition f64_trunc :: "f64 \<Rightarrow> int" where
  "f64_trunc a =
     (if f_neg a then -1 else 1) *
       int (if 0 \<le> f_exp a then f_mant a * 2 ^ nat (f_exp a) else f_mant a div 2 ^ nat (- f_exp a))"

text \<open>\<open>func (d Duration) Seconds() float64 { sec := d / Second; nsec := d % Second;
  return float64(sec) + float64(nsec)/1e9 }\<close>\<close>

definition duration_seconds :: "int \<Rightarrow> f64" where
  "duration_seconds d =
     (let sec = d sdiv 1000000000; nsec = d smod 1000000000
      in f64_add (f64_of_int sec) (f64_div (f64_of_int nsec) (f64_of_int 1000000000)))"

text \<open>\<open>seconds := int(delta.Seconds())\<close>, and the whole of lines 67--68 from the
  monotonic readings of the start instant and of now.\<close>

definition uptime_seconds_of :: "int \<Rightarrow> int" where
  "uptime_seconds_of d = f64_trunc (duration_seconds d)"

definition uptime_seconds :: "int64 \<Rightarrow> int64 \<Rightarrow> int" where
  "uptime_seconds start now = uptime_seconds_of (sint (sub_mono now start))"

subsection \<open>Devices of the proofs: exact values of floats\<close>

definition rne_rat :: "rat \<Rightarrow> int" where
  "rne_rat q = (let f = \<lfloor>q\<rfloor>; r = q - of_int f
                in if 1/2 < r \<or> (r = 1/2 \<and> odd f) then f + 1 else f)"

definition f64_round_val :: "nat \<Rightarrow> nat \<Rightarrow> rat" where
  "f64_round_val n d = (case f64_round n d of (m, e) \<Rightarrow> of_nat m * 2 powi e)"

definition f64_scaled :: "nat \<Rightarrow> nat \<Rightarrow> rat" where
  "f64_scaled n d = (of_nat n / of_nat d) / 2 powi f64_binade n d"

definition f64_val :: "f64 \<Rightarrow> rat" where
  "f64_val a = (if f_neg a then -1 else 1) * of_nat (f_mant a) * 2 powi f_exp a"

text \<open>\<open>rounds_to x v\<close>: \<open>v\<close> is the float64 rounding of the non-negative
  rational \<open>x\<close>.\<close>

definition rounds_to :: "rat \<Rightarrow> rat \<Rightarrow> bool" where
  "rounds_to x v \<longleftrightarrow> (\<exists>n d. 0 < d \<and> of_nat n / of_nat d = x \<and> v = f64_round_val n d)"

subsection \<open>Rounding to nearest on rationals\<close>

lemma rne_rat_cases: "rne_rat q = \<lfloor>q\<rfloor> \<or> rne_rat q = \<lfloor>q\<rfloor> + 1"
  by (simp add: rne_rat_def Let_def)

lemma rne_rat_int [simp]: "rne_rat (of_int z) = z"
  by (simp add: rne_rat_def)

lemma rne_rat_err: "\<bar>of_int (rne_rat q) - q\<bar> \<le> 1/2"
proof -
  have "of_int \<lfloor>q\<rfloor> \<le> q" "q < of_int \<lfloor>q\<rfloor> + 1"
    using floor_correct [of q] by simp_all
  moreover have "rne_rat q = (if 1/2 < q - of_int \<lfloor>q\<rfloor> \<or> (q - of_int \<lfloor>q\<rfloor> = 1/2 \<and> odd \<lfloor>q\<rfloor>)
      then \<lfloor>q\<rfloor> + 1 else \<lfloor>q\<rfloor>)"
    by (simp add: rne_rat_def Let_def)
  ultimately show ?thesis
    by (auto simp: abs_le_iff split: if_splits)
qed

lemma rne_rat_mono:
  assumes "q1 \<le> q2"
  shows "rne_rat q1 \<le> rne_rat q2"
proof (cases "\<lfloor>q1\<rfloor> < \<lfloor>q2\<rfloor>")
  case True
  then show ?thesis
    using rne_rat_cases [of q1] rne_rat_cases [of q2] by linarith
next
  case False
  with assms have eq: "\<lfloor>q1\<rfloor> = \<lfloor>q2\<rfloor>"
    by (meson floor_mono le_less not_le)
  then have "q1 - of_int \<lfloor>q1\<rfloor> \<le> q2 - of_int \<lfloor>q2\<rfloor>"
    using assms by simp
  with eq show ?thesis
    by (auto simp: rne_rat_def Let_def)
qed

lemma rne_div_eq:
  assumes "0 < den"
  shows "int (rne_div num den) = rne_rat (of_nat num / of_nat den)"
proof -
  let ?q = "of_nat num / of_nat den :: rat"
  have fl: "\<lfloor>?q\<rfloor> = int (num div den)"
    by (simp add: floor_divide_of_nat_eq)
  have "of_nat num = of_nat (num div den) * of_nat den + (of_nat (num mod den) :: rat)"
    by (metis div_mult_mod_eq of_nat_add of_nat_mult)
  then have q: "?q = of_nat (num div den) + of_nat (num mod den) / of_nat den"
    using assms by (simp add: field_simps)
  have "?q - of_int \<lfloor>?q\<rfloor> = ?q - of_nat (num div den)"
    by (simp only: fl of_int_of_nat_eq)
  also have "\<dots> = of_nat (num mod den) / of_nat den"
    by (subst q) simp
  finally have fr: "?q - of_int \<lfloor>?q\<rfloor> = of_nat (num mod den) / of_nat den" .
  have "(1/2 < (of_nat (num mod den) / of_nat den :: rat)) \<longleftrightarrow>
        (of_nat den :: rat) < of_nat (2 * (num mod den))"
    using assms by (simp add: field_simps)
  then have gt: "(1/2 < (of_nat (num mod den) / of_nat den :: rat)) \<longleftrightarrow> den < 2 * (num mod den)"
    by (simp only: of_nat_less_iff)
  have "((of_nat (num mod den) / of_nat den :: rat) = 1/2) \<longleftrightarrow>
        (of_nat (2 * (num mod den)) :: rat) = of_nat den"
    using assms by (auto simp: field_simps)
  then have eqh: "((of_nat (num mod den) / of_nat den :: rat) = 1/2) \<longleftrightarrow> 2 * (num mod den) = den"
    by (simp only: of_nat_eq_iff)
  show ?thesis
    unfolding rne_rat_def Let_def
    unfolding fr
    unfolding gt eqh fl
    by (simp add: rne_div_def Let_def)
qed

subsection \<open>Bit length and binade of a quotient\<close>

lemma nbits_bounds: "0 < n \<Longrightarrow> 2 ^ (nbits n - 1) \<le> n \<and> n < 2 ^ nbits n"
proof (induction n rule: nbits.induct)
  case (1 n)
  show ?case
  proof (cases "n div 2 = 0")
    case True
    with "1.prems" have "n = 1" by simp
    then show ?thesis by (simp add: nbits.simps)
  next
    case False
    with "1.IH" "1.prems" have ih: "2 ^ (nbits (n div 2) - 1) \<le> n div 2" "n div 2 < 2 ^ nbits (n div 2)"
      by simp_all
    from False have "0 < nbits (n div 2)"
      by (subst nbits.simps) simp
    with ih "1.prems" show ?thesis
      by (subst (1 2) nbits.simps) (cases "nbits (n div 2)"; auto)
  qed
qed

lemma pow2_split: "(2::rat) powi e = of_nat (2 ^ nat e) / of_nat (2 ^ nat (- e))"
proof (cases "0 \<le> e")
  case True
  then show ?thesis by (simp add: power_int_def)
next
  case False
  then show ?thesis by (simp add: power_int_def power_one_over [symmetric] inverse_eq_divide)
qed

lemma pow2_pos [simp]: "0 < (2::rat) powi e"
  by simp

lemma scaled_quotient:
  assumes "0 < d"
  shows "(of_nat (n * 2 ^ nat (- e)) / of_nat (d * 2 ^ nat e) :: rat) = (of_nat n / of_nat d) / 2 powi e"
  using assms by (simp add: pow2_split field_simps)

lemma binade_test:
  assumes "0 < d"
  shows "(d * 2 ^ nat k \<le> n * 2 ^ nat (- k)) \<longleftrightarrow> (2::rat) powi k \<le> of_nat n / of_nat d"
proof -
  have "(d * 2 ^ nat k \<le> n * 2 ^ nat (- k)) \<longleftrightarrow>
        (of_nat (d * 2 ^ nat k) :: rat) \<le> of_nat (n * 2 ^ nat (- k))"
    by (simp only: of_nat_le_iff)
  also have "\<dots> \<longleftrightarrow> of_nat (2 ^ nat k) / of_nat (2 ^ nat (- k)) \<le> (of_nat n / of_nat d :: rat)"
    using assms by (simp add: field_simps)
  finally show ?thesis
    by (simp add: pow2_split)
qed

lemma rat_pow2_le: "(2::nat) ^ k \<le> n \<Longrightarrow> (2::rat) ^ k \<le> of_nat n"
proof -
  assume "(2::nat) ^ k \<le> n"
  then have "(of_nat (2 ^ k) :: rat) \<le> of_nat n" by (simp only: of_nat_le_iff)
  then show ?thesis by simp
qed

lemma rat_pow2_gt: "n < (2::nat) ^ k \<Longrightarrow> of_nat n < (2::rat) ^ k"
proof -
  assume "n < (2::nat) ^ k"
  then have "(of_nat n :: rat) < of_nat (2 ^ k)" by (simp only: of_nat_less_iff)
  then show ?thesis by simp
qed

lemma quotient_bits:
  assumes "0 < n" "0 < d"
  shows "(2::rat) powi (int (nbits n) - int (nbits d) - 1) < of_nat n / of_nat d"
    and "of_nat n / of_nat d < (2::rat) powi (int (nbits n) - int (nbits d) + 1)"
proof -
  from nbits_bounds [OF assms(1)] nbits_bounds [OF assms(2)]
  have n: "2 ^ (nbits n - 1) \<le> n" "n < 2 ^ nbits n" and d: "2 ^ (nbits d - 1) \<le> d" "d < 2 ^ nbits d"
    by auto
  have a: "0 < nbits n" and b: "0 < nbits d"
    using n(2) d(2) assms by (auto intro: Nat.gr0I)
  have n': "(2::rat) ^ (nbits n - 1) \<le> of_nat n" "of_nat n < (2::rat) ^ nbits n"
    using n by (simp_all only: rat_pow2_le rat_pow2_gt)
  have d': "(2::rat) ^ (nbits d - 1) \<le> of_nat d" "of_nat d < (2::rat) ^ nbits d"
    using d by (simp_all only: rat_pow2_le rat_pow2_gt)
  have i1: "int (nbits n) - int (nbits d) - 1 = int (nbits n - 1) - int (nbits d)"
    using a by simp
  have i2: "int (nbits n) - int (nbits d) + 1 = int (nbits n) - int (nbits d - 1)"
    using b by simp
  have e1: "(2::rat) powi (int (nbits n) - int (nbits d) - 1) = 2 ^ (nbits n - 1) / 2 ^ nbits d"
    unfolding i1 by (subst power_int_diff) simp_all
  have e2: "(2::rat) powi (int (nbits n) - int (nbits d) + 1) = 2 ^ nbits n / 2 ^ (nbits d - 1)"
    unfolding i2 by (subst power_int_diff) simp_all
  have "(2::rat) ^ (nbits n - 1) / 2 ^ nbits d < of_nat n / of_nat d"
    using n' d' assms by (intro frac_less2) simp_all
  then show "(2::rat) powi (int (nbits n) - int (nbits d) - 1) < of_nat n / of_nat d"
    by (simp only: e1)
  have "of_nat n / of_nat d < (2::rat) ^ nbits n / 2 ^ (nbits d - 1)"
    using n' d' assms by (intro frac_less) simp_all
  then show "of_nat n / of_nat d < (2::rat) powi (int (nbits n) - int (nbits d) + 1)"
    by (simp only: e2)
qed

lemma f64_binade_bounds:
  assumes "0 < n" "0 < d"
  shows "(2::rat) powi (f64_binade n d + 52) \<le> of_nat n / of_nat d"
    and "of_nat n / of_nat d < (2::rat) powi (f64_binade n d + 53)"
proof -
  define k where "k = int (nbits n) - int (nbits d)"
  define x where "x = (of_nat n / of_nat d :: rat)"
  have lo: "2 powi (k - 1) < x" and hi: "x < 2 powi (k + 1)"
    using quotient_bits [OF assms] by (simp_all add: k_def x_def)
  have e: "f64_binade n d = (if 2 powi k \<le> x then k - 52 else k - 53)"
    using binade_test [OF assms(2), of k n]
    by (simp add: f64_binade_def Let_def k_def x_def)
  show "(2::rat) powi (f64_binade n d + 52) \<le> of_nat n / of_nat d"
    using lo by (simp add: e x_def [symmetric])
  show "of_nat n / of_nat d < (2::rat) powi (f64_binade n d + 53)"
    using hi by (simp add: e x_def [symmetric] add.commute)
qed

lemma pow2_less_iff [simp]: "(2::rat) powi a < 2 powi b \<longleftrightarrow> a < b"
proof
  assume lt: "(2::rat) powi a < 2 powi b"
  show "a < b"
  proof (rule ccontr)
    assume "\<not> a < b"
    then have "(2::rat) powi b \<le> 2 powi a"
      by (intro power_int_increasing) simp_all
    with lt show False by simp
  qed
next
  assume "a < b"
  then show "(2::rat) powi a < 2 powi b"
    by (rule power_int_strict_increasing) simp
qed

lemma pow2_le_iff [simp]: "(2::rat) powi a \<le> 2 powi b \<longleftrightarrow> a \<le> b"
  by (meson not_less pow2_less_iff)

lemma pow2_add: "(2::rat) powi (a + b) = 2 powi a * 2 powi b"
  by (simp add: power_int_add)

lemma rne_rat_pow2 [simp]: "rne_rat ((2::rat) ^ k) = 2 ^ k"
  using rne_rat_int [of "2 ^ k"] by simp

lemma rne_rat_numeral [simp]: "rne_rat (numeral k) = numeral k"
  using rne_rat_int [of "numeral k"] by simp

subsection \<open>Error, monotonicity and exactness of float64 rounding\<close>

lemma f64_round_val_eq:
  assumes "0 < n" "0 < d"
  shows "f64_round_val n d = of_int (rne_rat (f64_scaled n d)) * 2 powi f64_binade n d"
proof -
  define e where "e = f64_binade n d"
  have "int (rne_div (n * 2 ^ nat (- e)) (d * 2 ^ nat e)) = rne_rat (f64_scaled n d)"
    using rne_div_eq [of "d * 2 ^ nat e" "n * 2 ^ nat (- e)"] scaled_quotient [OF assms(2), of n e] assms(2)
    by (simp add: f64_scaled_def e_def)
  then have "(of_nat (rne_div (n * 2 ^ nat (- e)) (d * 2 ^ nat e)) :: rat) = of_int (rne_rat (f64_scaled n d))"
    by (metis of_int_of_nat_eq)
  then show ?thesis
    using assms by (simp add: f64_round_val_def f64_round_def e_def Let_def)
qed

lemma f64_scaled_bounds:
  assumes "0 < n" "0 < d"
  shows "2 ^ 52 \<le> f64_scaled n d" and "f64_scaled n d < 2 ^ 53"
proof -
  define e where "e = f64_binade n d"
  define x where "x = (of_nat n / of_nat d :: rat)"
  have lo: "2 ^ 52 * 2 powi e \<le> x"
    using f64_binade_bounds (1) [OF assms] by (simp add: pow2_add e_def x_def mult.commute)
  have hi: "x < 2 ^ 53 * 2 powi e"
    using f64_binade_bounds (2) [OF assms] by (simp add: pow2_add e_def x_def mult.commute)
  show "2 ^ 52 \<le> f64_scaled n d"
    unfolding f64_scaled_def e_def [symmetric] x_def [symmetric]
    using lo by (simp only: pos_le_divide_eq [OF pow2_pos])
  show "f64_scaled n d < 2 ^ 53"
    unfolding f64_scaled_def e_def [symmetric] x_def [symmetric]
    using hi by (simp only: pos_divide_less_eq [OF pow2_pos])
qed

lemma f64_mant_bounds:
  assumes "0 < n" "0 < d"
  shows "2 ^ 52 \<le> rne_rat (f64_scaled n d)" and "rne_rat (f64_scaled n d) \<le> 2 ^ 53"
proof -
  show "2 ^ 52 \<le> rne_rat (f64_scaled n d)"
    using rne_rat_mono [OF f64_scaled_bounds(1) [OF assms]] by simp
  show "rne_rat (f64_scaled n d) \<le> 2 ^ 53"
    using rne_rat_mono [of "f64_scaled n d" "2 ^ 53"] f64_scaled_bounds(2) [OF assms] by simp
qed

lemma f64_quotient_scaled:
  "0 < n \<Longrightarrow> 0 < d \<Longrightarrow> (of_nat n / of_nat d :: rat) = f64_scaled n d * 2 powi f64_binade n d"
  by (simp add: f64_scaled_def)

lemma f64_round_err:
  assumes "0 < n" "0 < d"
  shows "\<bar>f64_round_val n d - of_nat n / of_nat d\<bar> \<le> 2 powi f64_binade n d / 2"
proof -
  define e where "e = f64_binade n d"
  define s where "s = f64_scaled n d"
  have "f64_round_val n d - of_nat n / of_nat d = (of_int (rne_rat s) - s) * 2 powi e"
    using assms by (simp add: f64_round_val_eq f64_quotient_scaled s_def e_def algebra_simps)
  then have "\<bar>f64_round_val n d - of_nat n / of_nat d\<bar> = \<bar>of_int (rne_rat s) - s\<bar> * 2 powi e"
    by (simp add: abs_mult)
  also have "\<dots> \<le> 1/2 * 2 powi e"
    by (intro mult_right_mono rne_rat_err) simp
  finally show ?thesis
    by (simp add: e_def)
qed

lemma f64_binade_mono:
  assumes "0 < n1" "0 < d1" "0 < n2" "0 < d2"
    and "(of_nat n1 / of_nat d1 :: rat) \<le> of_nat n2 / of_nat d2"
  shows "f64_binade n1 d1 \<le> f64_binade n2 d2"
proof -
  have "(2::rat) powi (f64_binade n1 d1 + 52) < 2 powi (f64_binade n2 d2 + 53)"
    using f64_binade_bounds (1) [OF assms(1,2)] f64_binade_bounds (2) [OF assms(3,4)] assms(5)
    by linarith
  then show ?thesis
    by simp
qed

lemma f64_round_mono:
  assumes "0 < n1" "0 < d1" "0 < n2" "0 < d2"
    and le: "(of_nat n1 / of_nat d1 :: rat) \<le> of_nat n2 / of_nat d2"
  shows "f64_round_val n1 d1 \<le> f64_round_val n2 d2"
proof -
  define e1 where "e1 = f64_binade n1 d1"
  define e2 where "e2 = f64_binade n2 d2"
  have "e1 \<le> e2"
    using f64_binade_mono [OF assms] by (simp add: e1_def e2_def)
  show ?thesis
  proof (cases "e1 = e2")
    case True
    have "(of_nat n1 / of_nat d1) / 2 powi e2 \<le> (of_nat n2 / of_nat d2 :: rat) / 2 powi e2"
      by (rule divide_right_mono [OF le]) simp
    then have "f64_scaled n1 d1 \<le> f64_scaled n2 d2"
      unfolding f64_scaled_def using True by (simp only: e1_def e2_def)
    then have "rne_rat (f64_scaled n1 d1) \<le> rne_rat (f64_scaled n2 d2)"
      by (rule rne_rat_mono)
    with True show ?thesis
      using assms by (simp add: f64_round_val_eq e1_def e2_def)
  next
    case False
    with \<open>e1 \<le> e2\<close> have lt: "e1 + 53 \<le> e2 + 52" by simp
    have "f64_round_val n1 d1 \<le> 2 ^ 53 * 2 powi e1"
      using f64_mant_bounds (2) [OF assms(1,2)] assms(1,2)
      by (simp add: f64_round_val_eq e1_def)
    also have "\<dots> = 2 powi (e1 + 53)"
      by (simp add: pow2_add)
    also have "\<dots> \<le> 2 powi (e2 + 52)"
      using lt by simp
    also have "\<dots> = 2 ^ 52 * 2 powi e2"
      by (simp add: pow2_add)
    also have "\<dots> \<le> f64_round_val n2 d2"
      using f64_mant_bounds (1) [OF assms(3,4)] assms(3,4)
      by (simp add: f64_round_val_eq e2_def)
    finally show ?thesis .
  qed
qed

lemma f64_round_exact:
  assumes "0 < n" "0 < d" and x: "(of_nat n / of_nat d :: rat) = of_nat c * 2 powi f"
    and c: "c \<le> 2 ^ 53"
  shows "f64_round_val n d = of_nat n / of_nat d"
proof -
  define e where "e = f64_binade n d"
  define s where "s = f64_scaled n d"
  have s_eq: "s = of_nat c * 2 powi (f - e)"
    using x by (simp add: s_def f64_scaled_def e_def power_int_diff)
  have "\<exists>z. s = of_int z"
  proof (cases "e \<le> f")
    case True
    then have "s = of_int (int (c * 2 ^ nat (f - e)))"
      by (simp add: s_eq power_int_def)
    then show ?thesis ..
  next
    case False
    then have "f - e \<le> -1"
      by simp
    then have "(2::rat) powi (f - e) \<le> 2 powi (-1)"
      by (simp only: pow2_le_iff)
    then have "s \<le> of_nat c * 2 powi (-1)"
      unfolding s_eq by (rule mult_left_mono) simp
    also have "\<dots> \<le> 2 ^ 53 * 2 powi (-1)"
    proof -
      have "(of_nat c :: rat) \<le> of_nat (2 ^ 53)"
        using c by (simp only: of_nat_le_iff)
      then show ?thesis by (simp add: mult_right_mono)
    qed
    finally have "s \<le> 2 ^ 52"
      by (simp add: power_int_minus)
    with f64_scaled_bounds (1) [OF assms(1,2)] have "s = of_int (2 ^ 52)"
      by (simp add: s_def)
    then show ?thesis ..
  qed
  then obtain z where z: "s = of_int z" ..
  then have r: "rne_rat (f64_scaled n d) = z"
    by (simp add: s_def)
  have "f64_round_val n d = s * 2 powi e"
    using assms(1,2) by (simp add: f64_round_val_eq r z e_def)
  also have "\<dots> = of_nat n / of_nat d"
    using assms(1,2) by (simp add: f64_quotient_scaled s_def e_def)
  finally show ?thesis .
qed

subsection \<open>The Go operations on non-negative operands\<close>

lemma f64_round_val_zero [simp]: "f64_round_val 0 d = 0"
  by (simp add: f64_round_val_def f64_round_def)

lemma f64_round_val_nonneg: "0 \<le> f64_round_val n d"
  by (simp add: f64_round_val_def split: prod.split)

lemma f64_of_frac_val:
  "f64_val (f64_of_frac neg n d) = (if neg then -1 else 1) * f64_round_val n d"
  by (simp add: f64_of_frac_def f64_val_def f64_round_val_def split: prod.split)

lemma f64_of_frac_neg [simp]: "f_neg (f64_of_frac neg n d) = neg"
  by (simp add: f64_of_frac_def split: prod.split)

lemma f64_round_mono':
  assumes "0 < d1" "0 < d2" "(of_nat n1 / of_nat d1 :: rat) \<le> of_nat n2 / of_nat d2"
  shows "f64_round_val n1 d1 \<le> f64_round_val n2 d2"
proof (cases "n1 = 0")
  case True
  then show ?thesis by (simp add: f64_round_val_nonneg)
next
  case False
  have "0 < (of_nat n1 / of_nat d1 :: rat)"
    using False assms(1) by simp
  with assms(3) have "0 < n2"
    by (cases n2) auto
  with False assms show ?thesis
    by (intro f64_round_mono) simp_all
qed

lemma f64_of_int_exact:
  assumes "0 \<le> i" "i \<le> 2 ^ 53"
  shows "f64_val (f64_of_int i) = of_int i" and "\<not> f_neg (f64_of_int i)"
proof -
  show "\<not> f_neg (f64_of_int i)"
    using assms by (simp add: f64_of_int_def)
  have "f64_round_val (nat i) 1 = of_int i"
  proof (cases "i = 0")
    case False
    have "nat i \<le> 2 ^ 53"
      using assms by (simp add: nat_le_iff)
    then have "f64_round_val (nat i) 1 = of_nat (nat i) / of_nat 1"
      using False assms by (intro f64_round_exact [where c = "nat i" and f = 0]) simp_all
    then show ?thesis
      using assms by simp
  qed simp
  then show "f64_val (f64_of_int i) = of_int i"
    using assms by (simp add: f64_of_int_def f64_of_frac_val)
qed

lemma f64_mant_quotient:
  assumes "0 < mb"
  shows "(of_nat (ma * 2 ^ nat (ea - eb)) / of_nat (mb * 2 ^ nat (eb - ea)) :: rat)
         = (of_nat ma * 2 powi ea) / (of_nat mb * 2 powi eb)"
proof -
  have "(2::rat) powi (ea - eb) = of_nat (2 ^ nat (ea - eb)) / of_nat (2 ^ nat (eb - ea))"
    using pow2_split [of "ea - eb"] by simp
  then have "(2::rat) powi ea / 2 powi eb = of_nat (2 ^ nat (ea - eb)) / of_nat (2 ^ nat (eb - ea))"
    by (simp add: power_int_diff)
  then show ?thesis
    using assms by (simp add: field_simps)
qed

lemma f64_div_val:
  assumes "\<not> f_neg a" "\<not> f_neg b" "0 < f_mant b"
  shows "f64_val (f64_div a b) =
           f64_round_val (f_mant a * 2 ^ nat (f_exp a - f_exp b)) (f_mant b * 2 ^ nat (f_exp b - f_exp a))"
    and "\<not> f_neg (f64_div a b)"
  using assms by (simp_all add: f64_div_def f64_of_frac_val)

lemma f64_div_quotient:
  assumes "\<not> f_neg a" "\<not> f_neg b" "0 < f_mant b"
  shows "(of_nat (f_mant a * 2 ^ nat (f_exp a - f_exp b)) / of_nat (f_mant b * 2 ^ nat (f_exp b - f_exp a)) :: rat)
         = f64_val a / f64_val b"
  using assms f64_mant_quotient [OF assms(3)] by (simp add: f64_val_def)

lemma rounds_to_nonneg: "rounds_to x v \<Longrightarrow> 0 \<le> v"
  by (auto simp: rounds_to_def f64_round_val_nonneg)

lemma rounds_to_mono: "rounds_to x v \<Longrightarrow> rounds_to y w \<Longrightarrow> x \<le> y \<Longrightarrow> v \<le> w"
  by (auto simp: rounds_to_def intro: f64_round_mono')

lemma rounds_to_exact:
  "rounds_to x v \<Longrightarrow> x = of_nat c * 2 powi f \<Longrightarrow> c \<le> 2 ^ 53 \<Longrightarrow> v = x"
  unfolding rounds_to_def
  by (metis divide_eq_0_iff f64_round_exact f64_round_val_zero of_nat_eq_0_iff gr0I)

lemma rounds_to_int:
  assumes "rounds_to (of_int i) v" "0 \<le> i" "i \<le> 2 ^ 53"
  shows "v = of_int i"
proof -
  have "(of_int i :: rat) = of_nat (nat i) * 2 powi 0"
    using assms(2) by simp
  moreover have "nat i \<le> 2 ^ 53"
    using assms(3) by (simp only: nat_le_iff of_nat_numeral of_nat_power)
  ultimately show ?thesis
    by (rule rounds_to_exact [OF assms(1)])
qed

lemma rounds_to_err_above:
  assumes "rounds_to x v" "x < 2 powi k"
  shows "v \<le> x + 2 powi (k - 54)"
proof -
  from assms(1) obtain n d where nd: "0 < d" "of_nat n / of_nat d = x" "v = f64_round_val n d"
    by (auto simp: rounds_to_def)
  show ?thesis
  proof (cases "n = 0")
    case True
    with nd show ?thesis by simp
  next
    case False
    then have n: "0 < n" by simp
    have "(2::rat) powi (f64_binade n d + 52) \<le> x"
      using f64_binade_bounds (1) [OF n nd(1)] nd(2) by simp
    then have "(2::rat) powi (f64_binade n d + 52) < 2 powi k"
      using assms(2) by (rule order_le_less_trans)
    then have "f64_binade n d \<le> k - 53"
      by simp
    then have "(2::rat) powi f64_binade n d \<le> 2 powi (k - 53)"
      by (simp only: pow2_le_iff)
    moreover have "(2::rat) powi (k - 54) = 2 powi (k - 53) / 2"
      using power_int_diff [of "2::rat" "k - 53" 1] by simp
    ultimately have "(2::rat) powi f64_binade n d / 2 \<le> 2 powi (k - 54)"
      by simp
    moreover have "v - x \<le> 2 powi f64_binade n d / 2"
      using abs_le_D1 [OF f64_round_err [OF n nd(1)]] nd by simp
    ultimately show ?thesis by simp
  qed
qed

lemma pow2_shift: "e \<le> f \<Longrightarrow> (2::rat) ^ nat (f - e) * 2 powi e = 2 powi f"
proof -
  assume "e \<le> f"
  then have "(2::rat) ^ nat (f - e) = 2 powi (f - e)"
    by (simp add: power_int_def)
  then show ?thesis
    by (simp add: power_int_add [symmetric])
qed

lemma f64_div_rounds:
  assumes "\<not> f_neg a" "\<not> f_neg b" "0 < f_mant b"
  shows "rounds_to (f64_val a / f64_val b) (f64_val (f64_div a b))"
  unfolding rounds_to_def using assms f64_div_val [OF assms] f64_div_quotient [OF assms]
  by (metis mult_pos_pos zero_less_power zero_less_numeral)

lemma f64_add_val:
  assumes "\<not> f_neg a" "\<not> f_neg b"
  shows "rounds_to (f64_val a + f64_val b) (f64_val (f64_add a b))" and "\<not> f_neg (f64_add a b)"
proof -
  define e where "e = min (f_exp a) (f_exp b)"
  define S where "S = f_mant a * 2 ^ nat (f_exp a - e) + f_mant b * 2 ^ nat (f_exp b - e)"
  have s: "f64_signed a e + f64_signed b e = int S"
    using assms by (simp add: f64_signed_def S_def)
  have sum: "f64_add a b = f64_of_frac False (S * 2 ^ nat e) (2 ^ nat (- e))"
    by (simp add: f64_add_def Let_def e_def [symmetric] s)
  then show "\<not> f_neg (f64_add a b)" by simp
  have pa: "(2::rat) ^ nat (f_exp a - e) * 2 powi e = 2 powi f_exp a"
    by (rule pow2_shift) (simp add: e_def)
  have pb: "(2::rat) ^ nat (f_exp b - e) * 2 powi e = 2 powi f_exp b"
    by (rule pow2_shift) (simp add: e_def)
  have "(of_nat (S * 2 ^ nat e) / of_nat (2 ^ nat (- e)) :: rat) = of_nat S * 2 powi e"
    by (simp add: pow2_split)
  also have "\<dots> = f64_val a + f64_val b"
    using assms by (simp add: S_def f64_val_def algebra_simps flip: pa pb)
  finally show "rounds_to (f64_val a + f64_val b) (f64_val (f64_add a b))"
    unfolding rounds_to_def sum f64_of_frac_val by (intro exI [of _ "S * 2 ^ nat e"] exI [of _ "2 ^ nat (- e)"]) simp
qed

lemma f64_trunc_floor: "\<not> f_neg a \<Longrightarrow> f64_trunc a = \<lfloor>f64_val a\<rfloor>"
proof -
  assume a: "\<not> f_neg a"
  show ?thesis
  proof (cases "0 \<le> f_exp a")
    case True
    then have "f64_val a = of_int (int (f_mant a * 2 ^ nat (f_exp a)))"
      using a by (simp add: f64_val_def power_int_def)
    then have "\<lfloor>f64_val a\<rfloor> = int (f_mant a * 2 ^ nat (f_exp a))"
      by (simp only: floor_of_int)
    then show ?thesis
      using a True by (simp add: f64_trunc_def)
  next
    case False
    then have "f64_val a = of_nat (f_mant a) / of_nat (2 ^ nat (- f_exp a))"
      using a by (simp add: f64_val_def pow2_split)
    then have "\<lfloor>f64_val a\<rfloor> = int (f_mant a div 2 ^ nat (- f_exp a))"
      by (simp only: floor_divide_of_nat_eq)
    then show ?thesis
      using a False by (simp add: f64_trunc_def)
  qed
qed

subsection \<open>Duration.Seconds as two roundings\<close>

lemma rounds_toI: "0 < d \<Longrightarrow> rounds_to (of_nat n / of_nat d) (f64_round_val n d)"
  unfolding rounds_to_def by (intro exI [of _ n] exI [of _ d]) simp

lemma rounds_to_self:
  assumes "0 \<le> i" "i \<le> 2 ^ 53"
  shows "rounds_to (of_int i) (of_int i)"
proof -
  have r: "rounds_to (of_int i) (f64_round_val (nat i) 1)"
    using rounds_toI [of 1 "nat i"] assms(1) by simp
  then have "f64_round_val (nat i) 1 = of_int i"
    using assms by (rule rounds_to_int)
  with r show ?thesis by simp
qed

lemma duration_seconds_rounds:
  assumes "0 \<le> d" "d div 1000000000 < 2 ^ 53"
  shows "\<exists>v. rounds_to (of_int (d mod 1000000000) / 1000000000) v \<and>
             rounds_to (of_int (d div 1000000000) + v) (f64_val (duration_seconds d))"
    and "\<not> f_neg (duration_seconds d)"
proof -
  define q where "q = d div 1000000000"
  define r where "r = d mod 1000000000"
  have q: "0 \<le> q" "q \<le> 2 ^ 53" and r: "0 \<le> r" "r \<le> 2 ^ 53"
    using assms by (simp_all add: q_def r_def)
  note A = f64_of_int_exact [OF q] and B = f64_of_int_exact [OF r]
  note C = f64_of_int_exact [of 1000000000, simplified]
  have mC: "0 < f_mant (f64_of_int 1000000000)"
  proof (rule ccontr)
    assume "\<not> 0 < f_mant (f64_of_int 1000000000)"
    then have "f64_val (f64_of_int 1000000000) = 0"
      by (simp add: f64_val_def)
    with C(1) show False by simp
  qed
  define D where "D = f64_div (f64_of_int r) (f64_of_int 1000000000)"
  have D: "rounds_to (of_int r / 1000000000) (f64_val D)" "\<not> f_neg D"
    using f64_div_rounds [OF B(2) C(2) mC] f64_div_val (2) [OF B(2) C(2) mC] B(1) C(1)
    by (simp_all add: D_def)
  have ds: "duration_seconds d = f64_add (f64_of_int q) D"
    using assms(1) by (simp add: duration_seconds_def D_def q_def r_def)
  have E: "rounds_to (of_int q + f64_val D) (f64_val (duration_seconds d))"
    using f64_add_val (1) [OF A(2) D(2)] A(1) by (simp add: ds)
  with D show "\<exists>v. rounds_to (of_int (d mod 1000000000) / 1000000000) v \<and>
             rounds_to (of_int (d div 1000000000) + v) (f64_val (duration_seconds d))"
    by (auto simp: q_def r_def)
  show "\<not> f_neg (duration_seconds d)"
    using f64_add_val (2) [OF A(2) D(2)] by (simp add: ds)
qed

lemma uptime_seconds_floor:
  assumes "0 \<le> d" "d div 1000000000 < 2 ^ 53"
  shows "uptime_seconds_of d = \<lfloor>f64_val (duration_seconds d)\<rfloor>"
  using duration_seconds_rounds (2) [OF assms] by (simp add: uptime_seconds_of_def f64_trunc_floor)

lemma int64_div_billion: "d < 2 ^ 63 \<Longrightarrow> (d::int) div 1000000000 < 2 ^ 53"
proof -
  assume "d < 2 ^ 63"
  moreover have "d div 1000000000 * 1000000000 \<le> d"
    using div_mult_mod_eq [of d 1000000000] pos_mod_sign [of 1000000000 d] by linarith
  ultimately show ?thesis by simp
qed

lemma nsec_fraction_bounds:
  assumes "0 \<le> r" "r < 1000000000" "rounds_to (of_int r / 1000000000) v"
  shows "v \<le> 1" and "v \<le> 999999999 / 1000000000 + 2 powi (-54)"
proof -
  have x1: "(of_int r / 1000000000 :: rat) \<le> 999999999 / 1000000000"
    using assms(2) by simp
  have "rounds_to (of_int 1) (of_int 1)"
    by (rule rounds_to_self) simp_all
  then show "v \<le> 1"
    using rounds_to_mono [OF assms(3)] x1 by simp
  have "(of_int r / 1000000000 :: rat) < 2 powi 0"
    using assms(2) by simp
  from rounds_to_err_above [OF assms(3) this] x1
  show "v \<le> 999999999 / 1000000000 + 2 powi (-54)"
    by simp
qed

lemma seconds_value_bounds:
  assumes "0 \<le> d" "d < 2 ^ 63"
  shows "of_int (d div 1000000000) \<le> f64_val (duration_seconds d)"
    and "f64_val (duration_seconds d) \<le> of_int (d div 1000000000) + 1"
proof -
  define q where "q = d div 1000000000"
  have q: "0 \<le> q" "q < 2 ^ 53"
    using assms int64_div_billion [OF assms(2)] by (simp_all add: q_def)
  obtain v where v: "rounds_to (of_int (d mod 1000000000) / 1000000000) v"
    and e: "rounds_to (of_int q + v) (f64_val (duration_seconds d))"
    using duration_seconds_rounds (1) [OF assms(1) int64_div_billion [OF assms(2)]] by (auto simp: q_def)
  have "v \<le> 1" "0 \<le> v"
    using nsec_fraction_bounds (1) [OF _ _ v] rounds_to_nonneg [OF v] by simp_all
  have "rounds_to (of_int q) (of_int q)"
    using q by (intro rounds_to_self) simp_all
  from rounds_to_mono [OF this e] \<open>0 \<le> v\<close>
  show "of_int (d div 1000000000) \<le> f64_val (duration_seconds d)"
    by (simp add: q_def)
  have "rounds_to (of_int (q + 1)) (of_int (q + 1))"
    using q by (intro rounds_to_self) simp_all
  from rounds_to_mono [OF e this] \<open>v \<le> 1\<close>
  show "f64_val (duration_seconds d) \<le> of_int (d div 1000000000) + 1"
    by (simp add: q_def)
qed

lemma uptime_seconds_of_exact:
  assumes "0 \<le> d" "d div 1000000000 < 2 ^ 24"
  shows "uptime_seconds_of d = d div 1000000000"
proof -
  define q where "q = d div 1000000000"
  have "d div 1000000000 \<le> 16777215" "d mod 1000000000 < 1000000000"
    using assms(2) by simp_all
  then have "d < 16777216 * 1000000000"
    using div_mult_mod_eq [of d 1000000000] by linarith
  then have d63: "d < 2 ^ 63"
    by simp
  obtain v where v: "rounds_to (of_int (d mod 1000000000) / 1000000000) v"
    and e: "rounds_to (of_int q + v) (f64_val (duration_seconds d))"
    using duration_seconds_rounds (1) [OF assms(1) int64_div_billion [OF d63]] by (auto simp: q_def)
  have vb: "v \<le> 999999999 / 1000000000 + 2 powi (-54)"
    using nsec_fraction_bounds (2) [OF _ _ v] by simp
  have "of_int q + v < (2::rat) powi 24"
    using assms(2) vb by (simp add: q_def [symmetric])
  from rounds_to_err_above [OF e this] vb
  have "f64_val (duration_seconds d) < of_int q + 1"
    by simp
  then have "\<lfloor>f64_val (duration_seconds d)\<rfloor> \<le> q"
    by (simp add: floor_le_iff)
  moreover have "q \<le> \<lfloor>f64_val (duration_seconds d)\<rfloor>"
    using seconds_value_bounds (1) [OF assms(1) d63] by (simp add: le_floor_iff q_def)
  ultimately show ?thesis
    using uptime_seconds_floor [OF assms(1) int64_div_billion [OF d63]] by (simp add: q_def)
qed

lemmas f64_eval = f64_add_def f64_div_def f64_of_int_def f64_of_frac_def f64_round_def
  f64_binade_def rne_div_def f64_signed_def f64_trunc_def nbits.simps Let_def

subsection \<open>The monotonic clock difference\<close>

lemma sint_int64_bounds: "- (2 ^ 63) \<le> sint (w::int64)" "sint (w::int64) < 2 ^ 63"
  using sint_greater_eq [of w] sint_less [of w] by simp_all

lemma sint_max_duration [simp]: "sint max_duration = 2 ^ 63 - 1"
  by (simp add: max_duration_def)

lemma sint_diff_nonneg:
  fixes t u :: int64
  assumes "sint u \<le> sint t"
  shows "sint (t - u) = (if sint t - sint u < 2 ^ 63 then sint t - sint u else sint t - sint u - 2 ^ 64)"
proof -
  define D where "D = sint t - sint u"
  have D: "0 \<le> D" "D < 2 ^ 64"
    using assms sint_int64_bounds [of t] sint_int64_bounds [of u] by (simp_all add: D_def)
  have st: "sint (t - u) = signed_take_bit 63 D"
    by (simp add: sint_word_diff D_def)
  show ?thesis
  proof (cases "D < 2 ^ 63")
    case True
    with D st show ?thesis
      by (simp add: signed_take_bit_int_eq_self D_def [symmetric])
  next
    case False
    have "(D + 2 ^ 63) mod 2 ^ 64 = D + 2 ^ 63 - 2 ^ 64"
    proof -
      have "(D + 2 ^ 63) mod 2 ^ 64 = (D + 2 ^ 63 - 2 ^ 64) mod 2 ^ 64"
        using False by (simp add: mod_pos_geq)
      also have "\<dots> = D + 2 ^ 63 - 2 ^ 64"
        using False D by (intro mod_pos_pos_trivial) simp_all
      finally show ?thesis .
    qed
    then have "signed_take_bit 63 D = D - 2 ^ 64"
      by (simp add: signed_take_bit_eq_take_bit_shift take_bit_eq_mod)
    with False st show ?thesis
      by (simp add: D_def [symmetric])
  qed
qed

lemma sint_min_duration [simp]: "sint min_duration = - (2 ^ 63)"
  by (simp add: min_duration_def)

lemma sint_diff_neg:
  fixes t u :: int64
  assumes "sint t < sint u"
  shows "sint (t - u) = (if - (2 ^ 63) \<le> sint t - sint u then sint t - sint u else sint t - sint u + 2 ^ 64)"
proof -
  define D where "D = sint t - sint u"
  have D: "- (2 ^ 64) < D" "D < 0"
    using assms sint_int64_bounds [of t] sint_int64_bounds [of u] by (simp_all add: D_def)
  have st: "sint (t - u) = signed_take_bit 63 D"
    by (simp add: sint_word_diff D_def)
  show ?thesis
  proof (cases "- (2 ^ 63) \<le> D")
    case True
    with D st show ?thesis
      by (simp add: signed_take_bit_int_eq_self D_def [symmetric])
  next
    case False
    have "(D + 2 ^ 63) mod 2 ^ 64 = D + 2 ^ 63 + 2 ^ 64"
    proof -
      have "(D + 2 ^ 63) mod 2 ^ 64 = (D + 2 ^ 63 + 2 ^ 64) mod 2 ^ 64"
        by (simp only: mod_add_self2)
      also have "\<dots> = D + 2 ^ 63 + 2 ^ 64"
        using False D by (intro mod_pos_pos_trivial) simp_all
      finally show ?thesis .
    qed
    then have "signed_take_bit 63 D = D + 2 ^ 64"
      by (simp add: signed_take_bit_eq_take_bit_shift take_bit_eq_mod)
    with False st show ?thesis
      by (simp add: D_def [symmetric])
  qed
qed

lemma sub_mono_elapsed:
  fixes t u :: int64
  assumes "sint u \<le> sint t"
  shows "sint (sub_mono t u) = min (sint t - sint u) (2 ^ 63 - 1)"
  using assms sint_diff_nonneg [OF assms] sint_int64_bounds [of t] sint_int64_bounds [of u]
  by (auto simp: sub_mono_def Let_def)

lemma sub_mono_range:
  fixes t u :: int64
  assumes "sint u \<le> sint t"
  shows "0 \<le> sint (sub_mono t u)" "sint (sub_mono t u) < 2 ^ 63"
  using sub_mono_elapsed [OF assms] assms by simp_all

lemma uptime_seconds_of_mono:
  assumes "0 \<le> d1" "d1 \<le> d2" "d2 < 2 ^ 63"
  shows "uptime_seconds_of d1 \<le> uptime_seconds_of d2"
proof -
  have d1: "d1 < 2 ^ 63" and d2: "0 \<le> d2"
    using assms by simp_all
  let ?v1 = "f64_val (duration_seconds d1)" and ?v2 = "f64_val (duration_seconds d2)"
  have "?v1 \<le> ?v2"
  proof (cases "d1 div 1000000000 < d2 div 1000000000")
    case True
    then have "(of_int (d1 div 1000000000) :: rat) + 1 \<le> of_int (d2 div 1000000000)"
      by (metis of_int_1 of_int_add of_int_le_iff zless_imp_add1_zle)
    then show ?thesis
      using seconds_value_bounds (2) [OF assms(1) d1] seconds_value_bounds (1) [OF d2 assms(3)]
      by linarith
  next
    case False
    define q where "q = d1 div 1000000000"
    have q2: "d2 div 1000000000 = q"
      using False zdiv_mono1 [OF assms(2), of 1000000000] by (simp add: q_def)
    have r: "d1 mod 1000000000 \<le> d2 mod 1000000000"
      using assms(2) q2 q_def div_mult_mod_eq [of d1 1000000000] div_mult_mod_eq [of d2 1000000000]
      by linarith
    obtain v1 where v1: "rounds_to (of_int (d1 mod 1000000000) / 1000000000) v1"
      and e1: "rounds_to (of_int q + v1) ?v1"
      using duration_seconds_rounds (1) [OF assms(1) int64_div_billion [OF d1]] by (auto simp: q_def)
    obtain v2 where v2: "rounds_to (of_int (d2 mod 1000000000) / 1000000000) v2"
      and e2: "rounds_to (of_int q + v2) ?v2"
      using duration_seconds_rounds (1) [OF d2 int64_div_billion [OF assms(3)]] by (auto simp: q2)
    have "v1 \<le> v2"
      using rounds_to_mono [OF v1 v2] r by simp
    then show ?thesis
      using rounds_to_mono [OF e1 e2] by simp
  qed
  then show ?thesis
    using uptime_seconds_floor [OF assms(1) int64_div_billion [OF d1]]
          uptime_seconds_floor [OF d2 int64_div_billion [OF assms(3)]]
    by (simp add: floor_mono)
qed

lemma uptime_seconds_nonneg_aux:
  fixes start now :: int64
  assumes "sint start \<le> sint now"
  shows "0 \<le> uptime_seconds start now"
proof -
  let ?d = "sint (sub_mono now start)"
  have "0 \<le> ?d div 1000000000"
    using sub_mono_range (1) [OF assms] by simp
  moreover have "of_int (?d div 1000000000) \<le> f64_val (duration_seconds ?d)"
    by (rule seconds_value_bounds (1) [OF sub_mono_range [OF assms]])
  ultimately have "0 \<le> \<lfloor>f64_val (duration_seconds ?d)\<rfloor>"
    by (simp add: le_floor_iff)
  then show ?thesis
    unfolding uptime_seconds_def
    using uptime_seconds_floor [OF sub_mono_range (1) [OF assms] int64_div_billion [OF sub_mono_range (2) [OF assms]]]
    by simp
qed

lemma uptime_seconds_le:
  fixes start n1 n2 :: int64
  assumes "sint start \<le> sint n1" "sint n1 \<le> sint n2"
  shows "uptime_seconds start n1 \<le> uptime_seconds start n2"
proof -
  have "sint (sub_mono n1 start) \<le> sint (sub_mono n2 start)"
    using sub_mono_elapsed [OF assms(1)] sub_mono_elapsed [of start n2] assms by simp
  then show ?thesis
    unfolding uptime_seconds_def
    using sub_mono_range [OF assms(1)] sub_mono_range [of start n2] assms
    by (intro uptime_seconds_of_mono) simp_all
qed

lemma uptime_seconds_of_bounds:
  assumes "0 \<le> d" "d < 2 ^ 63"
  shows "uptime_seconds_of d = d div 1000000000 \<or> uptime_seconds_of d = d div 1000000000 + 1"
proof -
  let ?q = "d div 1000000000" and ?v = "f64_val (duration_seconds d)"
  have s: "uptime_seconds_of d = \<lfloor>?v\<rfloor>"
    by (rule uptime_seconds_floor [OF assms(1) int64_div_billion [OF assms(2)]])
  have "?q \<le> \<lfloor>?v\<rfloor>"
    using seconds_value_bounds (1) [OF assms] by (simp add: le_floor_iff)
  moreover have "\<lfloor>?v\<rfloor> \<le> ?q + 1"
    using seconds_value_bounds (2) [OF assms] by (simp add: floor_le_iff)
  ultimately show ?thesis
    using s by linarith
qed

lemma uptime_seconds_below:
  fixes start now :: int64
  assumes "sint start \<le> sint now" "sint now - sint start < 2 ^ 24 * 1000000000"
  shows "uptime_seconds start now = (sint now - sint start) div 1000000000"
proof -
  have d: "sint (sub_mono now start) = sint now - sint start"
    using sub_mono_elapsed [OF assms(1)] assms(2) by simp
  have "(sint now - sint start) div 1000000000 < 2 ^ 24"
    using assms(2) by simp
  then show ?thesis
    unfolding uptime_seconds_def d using assms(1)
    by (intro uptime_seconds_of_exact) simp_all
qed

text \<open>C18: \<open>int(delta.Seconds())\<close> is the truncated number of whole seconds of a
  non-negative \<open>Duration\<close> or one more: float64 rounding can carry a fraction up
  to the next second, and never further.\<close>

theorem uptime_seconds_whole:
  assumes "0 \<le> d" "d < 2 ^ 63"
  shows "uptime_seconds_of d = d div 1000000000 \<or> uptime_seconds_of d = d div 1000000000 + 1"
  using assms by (rule uptime_seconds_of_bounds)

theorem uptime_seconds_whole_witness:
  "0 \<le> (16777216999999999::int) \<and> (16777216999999999::int) < 2 ^ 63 \<and>
   (uptime_seconds_of 16777216999999999 = 16777216999999999 div 1000000000 \<or>
    uptime_seconds_of 16777216999999999 = 16777216999999999 div 1000000000 + 1)"
  using uptime_seconds_whole [of 16777216999999999] by simp

lemma uptime_seconds_of_carry:
  "uptime_seconds_of (16777216 * 1000000000 + 999999999) = 16777217"
proof -
  have ds: "duration_seconds (16777216 * 1000000000 + 999999999) =
      f64_add (f64_of_int 16777216) (f64_div (f64_of_int 999999999) (f64_of_int 1000000000))"
    by (simp add: duration_seconds_def)
  have a: "f64_of_int 16777216 = \<lparr>f_neg = False, f_mant = 4503599627370496, f_exp = -28\<rparr>"
    by (simp add: f64_eval)
  have b: "f64_of_int 999999999 = \<lparr>f_neg = False, f_mant = 8388607991611392, f_exp = -23\<rparr>"
    by (simp add: f64_eval)
  have c: "f64_of_int 1000000000 = \<lparr>f_neg = False, f_mant = 8388608000000000, f_exp = -23\<rparr>"
    by (simp add: f64_eval)
  have d: "f64_div \<lparr>f_neg = False, f_mant = 8388607991611392, f_exp = -23\<rparr>
             \<lparr>f_neg = False, f_mant = 8388608000000000, f_exp = -23\<rparr>
           = \<lparr>f_neg = False, f_mant = 9007199245733793, f_exp = -53\<rparr>"
    by (simp add: f64_eval)
  have e: "f64_add \<lparr>f_neg = False, f_mant = 4503599627370496, f_exp = -28\<rparr>
             \<lparr>f_neg = False, f_mant = 9007199245733793, f_exp = -53\<rparr>
           = \<lparr>f_neg = False, f_mant = 4503599895805952, f_exp = -28\<rparr>"
    by (simp add: f64_eval)
  have t: "f64_trunc \<lparr>f_neg = False, f_mant = 4503599895805952, f_exp = -28\<rparr> = 16777217"
    by (simp add: f64_eval)
  show ?thesis
    by (simp only: uptime_seconds_of_def ds a b c d e t)
qed

text \<open>C1: the uptime in seconds never decreases: for monotonic readings
  \<open>start \<le> n1 \<le> n2\<close> the seconds computed at \<open>n1\<close> are at most those at
  \<open>n2\<close>, through the saturating clock difference and both float64 roundings.\<close>

theorem uptime_seconds_monotone:
  fixes start n1 n2 :: int64
  assumes "sint start \<le> sint n1" "sint n1 \<le> sint n2"
  shows "uptime_seconds start n1 \<le> uptime_seconds start n2"
  using assms by (rule uptime_seconds_le)

theorem uptime_seconds_monotone_witness:
  "sint (3::int64) \<le> sint (5000000000::int64) \<and> sint (5000000000::int64) \<le> sint (9000000000::int64) \<and>
   uptime_seconds 3 5000000000 \<le> uptime_seconds 3 9000000000"
  using uptime_seconds_monotone [of 3 5000000000 9000000000] by simp

text \<open>C17: below 2^24 seconds (about 194 days) of uptime the seconds are exactly the
  elapsed nanoseconds divided by 10^9 and truncated, as the specification says.\<close>

theorem uptime_seconds_truncates:
  fixes start now :: int64
  assumes "sint start \<le> sint now" "sint now - sint start < 2 ^ 24 * 1000000000"
  shows "uptime_seconds start now = (sint now - sint start) div 1000000000"
  using assms by (rule uptime_seconds_below)

theorem uptime_seconds_truncates_witness:
  "sint (3::int64) \<le> sint (7325999999999::int64) \<and>
   sint (7325999999999::int64) - sint (3::int64) < 2 ^ 24 * 1000000000 \<and>
   uptime_seconds 3 7325999999999 = 7325"
  using uptime_seconds_truncates [of 3 7325999999999] by simp

text \<open>C14: \<open>time.Since\<close> is the exact difference of the two monotonic readings,
  clamped to the \<open>int64\<close> range: the runtime's wrap-and-test in \<open>subMono\<close>
  equals saturating subtraction, in both directions.\<close>

theorem sub_mono_saturates:
  fixes t u :: int64
  shows "sint (sub_mono t u) = max (- (2 ^ 63)) (min (2 ^ 63 - 1) (sint t - sint u))"
proof (cases "sint u \<le> sint t")
  case True
  then show ?thesis
    using sub_mono_elapsed [OF True] by simp
next
  case False
  then show ?thesis
    using sint_diff_neg [of t u] sint_int64_bounds [of t] sint_int64_bounds [of u]
    by (auto simp: sub_mono_def Let_def)
qed

text \<open>C15: once the clock has reached the start reading, the seconds lie between 0
  and 9223372037, so \<open>int(delta.Seconds())\<close> converts a float64 that an
  \<open>int\<close> represents: the conversion is never out of range.\<close>

theorem uptime_seconds_fits_int64:
  fixes start now :: int64
  assumes "sint start \<le> sint now"
  shows "0 \<le> uptime_seconds start now \<and> uptime_seconds start now \<le> 9223372037"
proof -
  let ?d = "sint (sub_mono now start)"
  have d: "0 \<le> ?d" "?d < 2 ^ 63"
    by (rule sub_mono_range [OF assms])+
  then have "?d div 1000000000 \<le> 9223372036"
    using zdiv_mono1 [of ?d "2 ^ 63 - 1" 1000000000] by simp
  then show ?thesis
    using uptime_seconds_of_bounds [OF d] uptime_seconds_nonneg_aux [OF assms]
    unfolding uptime_seconds_def by auto
qed

theorem uptime_seconds_fits_int64_witness:
  "sint (0::int64) \<le> sint (9223372036854775807::int64) \<and>
   0 \<le> uptime_seconds 0 9223372036854775807 \<and> uptime_seconds 0 9223372036854775807 \<le> 9223372037"
  using uptime_seconds_fits_int64 [of 0 9223372036854775807] by simp

end
