(* ===== verification/Uptime.thy ===== *)
theory Uptime
  imports GoTime
begin

text \<open>
  The Uptime Calculator, \<open>getUptime\<close> in \<open>src/app_go/main.go\<close> (lines 66--92).
  From the whole seconds of uptime it derives hours and minutes with Go's
  truncating \<open>/\<close> and \<open>%\<close> (\<open>sdiv\<close>, \<open>smod\<close>), builds the list of phrases
  \<open>parts\<close> (an hours phrase only when \<open>hours > 0\<close>, a minutes phrase always) and
  joins them, reading \<open>parts[0]\<close>, which would panic on an empty list: the
  model returns that panic as \<open>Inl\<close>. A reader \<open>parse_uptime_human\<close> inverts
  the human string; it is a device of the specification, not code.
\<close>

subsection \<open>Phrases and their join (main.go 69--89)\<close>

definition uptime_hours :: "int \<Rightarrow> int" where
  "uptime_hours seconds = seconds sdiv 3600"

definition uptime_minutes :: "int \<Rightarrow> int" where
  "uptime_minutes seconds = (seconds smod 3600) sdiv 60"

definition hour_phrase :: "int \<Rightarrow> string" where
  "hour_phrase hours = (if hours = 1 then go_itoa hours @ '' hour'' else go_itoa hours @ '' hours'')"

definition minute_phrase :: "int \<Rightarrow> string" where
  "minute_phrase minutes =
     (if minutes = 1 then go_itoa minutes @ '' minute'' else go_itoa minutes @ '' minutes'')"

definition uptime_parts :: "int \<Rightarrow> string list" where
  "uptime_parts seconds =
     (let hours = uptime_hours seconds; minutes = uptime_minutes seconds
      in (if hours > 0 then [hour_phrase hours] else []) @ [minute_phrase minutes])"

text \<open>\<open>human := parts[0]; if len(parts) > 1 { human = parts[0] + ", " + parts[1] }\<close>\<close>

definition join_parts :: "string list \<Rightarrow> go_panic + string" where
  "join_parts parts =
     (case parts of
        [] \<Rightarrow> Inl (IndexOutOfRange 0 0)
      | p0 # _ \<Rightarrow> Inr (if length parts > 1 then p0 @ '', '' @ parts ! 1 else p0))"

definition uptime_human :: "int \<Rightarrow> go_panic + string" where
  "uptime_human seconds = join_parts (uptime_parts seconds)"

text \<open>\<open>getUptime\<close> (main.go 66--92): the whole seconds since the start reading
  (\<open>GoTime.uptime_seconds\<close>, lines 67--68), then the human string; a panic of
  \<open>parts[0]\<close> would propagate out of the function.\<close>

definition get_uptime :: "int64 \<Rightarrow> int64 \<Rightarrow> go_panic + (int \<times> string)" where
  "get_uptime start now =
     (let seconds = uptime_seconds start now
      in case uptime_human seconds of Inl p \<Rightarrow> Inl p | Inr human \<Rightarrow> Inr (seconds, human))"

subsection \<open>Reading a human uptime string back\<close>

definition parse_count :: "string \<Rightarrow> string \<Rightarrow> string \<Rightarrow> nat option" where
  "parse_count sing plur s =
     (let ds = takeWhile is_digit s; rest = dropWhile is_digit s
      in if rest = sing \<or> rest = plur then parse_nat ds else None)"

definition split_comma :: "string \<Rightarrow> (string \<times> string) option" where
  "split_comma s =
     (case dropWhile (\<lambda>c. c \<noteq> CHR '','') s of
        _ # c # r \<Rightarrow> if c = CHR '' '' then Some (takeWhile (\<lambda>c. c \<noteq> CHR '','') s, r) else None
      | _ \<Rightarrow> None)"

definition parse_uptime_human :: "string \<Rightarrow> (nat \<times> nat) option" where
  "parse_uptime_human s =
     (case split_comma s of
        Some (a, b) \<Rightarrow>
          (case (parse_count '' hour'' '' hours'' a, parse_count '' minute'' '' minutes'' b) of
             (Some h, Some m) \<Rightarrow> Some (h, m)
           | _ \<Rightarrow> None)
      | None \<Rightarrow> map_option (\<lambda>m. (0, m)) (parse_count '' minute'' '' minutes'' s))"

subsection \<open>Lemmas\<close>

lemma space_not_digit [simp]: "\<not> is_digit CHR '' ''"
  by (simp add: is_digit_def)

lemma digit_not_comma [simp]: "is_digit c \<Longrightarrow> c \<noteq> CHR '',''"
  by (auto simp: is_digit_def)

lemma uptime_hours_nonneg [simp]: "0 \<le> s \<Longrightarrow> uptime_hours s = s div 3600"
  by (simp add: uptime_hours_def)

lemma uptime_minutes_nonneg [simp]: "0 \<le> s \<Longrightarrow> uptime_minutes s = s mod 3600 div 60"
  by (simp add: uptime_minutes_def)

lemma uptime_parts_nonempty [simp]: "uptime_parts s \<noteq> []"
  by (simp add: uptime_parts_def Let_def)

lemma join_parts_single [simp]: "join_parts [p] = Inr p"
  by (simp add: join_parts_def)

lemma join_parts_pair [simp]: "join_parts [p, q] = Inr (p @ '', '' @ q)"
  by (simp add: join_parts_def)

lemma parse_count_digits [simp]:
  "parse_count sing plur (nat_digits n @ sing) = Some n"
  "parse_count sing plur (nat_digits n @ plur) = Some n"
  if "sing = CHR '' '' # w" "plur = CHR '' '' # w'"
  using that by (simp_all add: parse_count_def)

lemma minute_phrase_nonneg:
  "0 \<le> m \<Longrightarrow> \<exists>u. minute_phrase m = nat_digits (nat m) @ u \<and> (u = '' minute'' \<or> u = '' minutes'')"
  by (auto simp: minute_phrase_def)

lemma hour_phrase_nonneg:
  "0 \<le> h \<Longrightarrow> \<exists>u. hour_phrase h = nat_digits (nat h) @ u \<and> (u = '' hour'' \<or> u = '' hours'')"
  by (auto simp: hour_phrase_def)

lemma parse_count_hour_phrase [simp]:
  "0 \<le> h \<Longrightarrow> parse_count '' hour'' '' hours'' (hour_phrase h) = Some (nat h)"
  by (auto simp: hour_phrase_def)

lemma parse_count_minute_phrase [simp]:
  "0 \<le> m \<Longrightarrow> parse_count '' minute'' '' minutes'' (minute_phrase m) = Some (nat m)"
  by (auto simp: minute_phrase_def)

lemma split_comma_minutes [simp]:
  "0 \<le> m \<Longrightarrow> split_comma (minute_phrase m) = None"
  by (auto simp: minute_phrase_def split_comma_def dropWhile_append2)

lemma split_comma_hours [simp]:
  "0 \<le> h \<Longrightarrow> split_comma (hour_phrase h @ CHR '','' # CHR '' '' # r) = Some (hour_phrase h, r)"
  by (auto simp: hour_phrase_def split_comma_def dropWhile_append2 takeWhile_append2)

text \<open>On non-negative seconds the join is the two phrases, or the minutes phrase alone.\<close>

lemma uptime_human_nonneg:
  assumes "0 \<le> s"
  shows "uptime_human s =
    Inr (if s div 3600 > 0 then hour_phrase (s div 3600) @ '', '' @ minute_phrase (s mod 3600 div 60)
         else minute_phrase (s mod 3600 div 60))"
  using assms by (simp add: uptime_human_def uptime_parts_def)

lemma uptime_human_Inr: "\<exists>h. uptime_human s = Inr h"
  by (auto simp: uptime_human_def join_parts_def neq_Nil_conv split: list.split)

lemma get_uptime_Inr: "get_uptime start now = Inr (uptime_seconds start now, projr (uptime_human (uptime_seconds start now)))"
  using uptime_human_Inr [of "uptime_seconds start now"] by (auto simp: get_uptime_def)

lemmas uptime_eval [model_simps] = uptime_human_nonneg hour_phrase_def minute_phrase_def go_itoa_def

subsection \<open>Properties of the human uptime string\<close>

text \<open>The table of the specification, evaluated: 45, 60, 125, 3600 and 7325 seconds.\<close>

lemma uptime_human_spec_examples:
  "uptime_human 45 = Inr ''0 minutes'' \<and> uptime_human 60 = Inr ''1 minute''
   \<and> uptime_human 125 = Inr ''2 minutes'' \<and> uptime_human 3600 = Inr ''1 hour, 0 minutes''
   \<and> uptime_human 7325 = Inr ''2 hours, 2 minutes''"
  by (simp add: model_simps)

text \<open>C19: building the human string never panics: \<open>parts\<close> always holds the
  minutes phrase, so reading \<open>parts[0]\<close> is in range for every number of seconds,
  negative ones included.\<close>

theorem uptime_human_never_panics: "\<exists>h. uptime_human s = Inr h"
  by (auto simp: uptime_human_def join_parts_def neq_Nil_conv split: list.split)

text \<open>C23: \<open>getUptime\<close> never panics; it returns the whole seconds since the start
  reading and, for a clock at or past the start, a human string that reads back to
  the hours and minutes of exactly those seconds.\<close>

theorem get_uptime_consistent:
  assumes "sint start \<le> sint now"
  shows "\<exists>h. get_uptime start now = Inr (uptime_seconds start now, h) \<and>
           parse_uptime_human h = Some (nat (uptime_seconds start now div 3600),
                                        nat (uptime_seconds start now mod 3600 div 60))"
proof -
  have "0 \<le> uptime_seconds start now"
    using assms by (rule uptime_seconds_nonneg_aux)
  then show ?thesis
    by (simp add: get_uptime_def Let_def uptime_human_nonneg parse_uptime_human_def)
qed

theorem get_uptime_consistent_witness:
  "sint (3::int64) \<le> sint (5000000000::int64) \<and>
   (\<exists>h. get_uptime 3 5000000000 = Inr (uptime_seconds 3 5000000000, h) \<and>
        parse_uptime_human h = Some (nat (uptime_seconds 3 5000000000 div 3600),
                                     nat (uptime_seconds 3 5000000000 mod 3600 div 60)))"
  using get_uptime_consistent [of 3 5000000000] by simp

text \<open>C20: for a non-negative uptime the human string is unambiguous: reading it
  back gives exactly the whole hours and the whole minutes past the hour.\<close>

theorem uptime_human_roundtrip:
  "0 \<le> s \<Longrightarrow> \<exists>h. uptime_human s = Inr h \<and>
     parse_uptime_human h = Some (nat (s div 3600), nat (s mod 3600 div 60))"
  by (simp add: uptime_human_nonneg parse_uptime_human_def)

theorem uptime_human_roundtrip_witness:
  "\<exists>h. uptime_human 7325 = Inr h \<and> parse_uptime_human h = Some (2, 2)"
  using uptime_human_roundtrip [of 7325] by simp

text \<open>C21: hours and minutes decompose a non-negative uptime: the minutes are in
  [0, 60), and the seconds lie in the minute that hours and minutes name.\<close>

theorem uptime_decomposition:
  assumes "0 \<le> s"
  shows "0 \<le> uptime_minutes s \<and> uptime_minutes s < 60 \<and>
    3600 * uptime_hours s + 60 * uptime_minutes s \<le> s \<and>
    s < 3600 * uptime_hours s + 60 * uptime_minutes s + 60"
proof -
  define r where "r = s mod 3600"
  have s: "s = 3600 * (s div 3600) + r" and r: "0 \<le> r" "r < 3600"
    by (simp_all add: r_def)
  have m: "r = 60 * (r div 60) + r mod 60" and "0 \<le> r mod 60" "r mod 60 < 60"
    by simp_all
  moreover have "0 \<le> r div 60"
    using r by simp
  ultimately show ?thesis
    using assms s r by (simp add: r_def [symmetric]) linarith
qed

theorem uptime_decomposition_witness:
  "0 \<le> uptime_minutes 7325 \<and> uptime_minutes 7325 < 60 \<and>
    3600 * uptime_hours 7325 + 60 * uptime_minutes 7325 \<le> 7325 \<and>
    7325 < 3600 * uptime_hours 7325 + 60 * uptime_minutes 7325 + 60"
  using uptime_decomposition [of 7325] by simp

text \<open>C22: under a minute of uptime the human string is exactly "0 minutes": the
  hours phrase is left out and the minutes phrase is not suppressed at zero.\<close>

theorem uptime_human_under_minute:
  "0 \<le> s \<Longrightarrow> s < 60 \<Longrightarrow> uptime_human s = Inr ''0 minutes''"
  by (simp add: model_simps)

theorem uptime_human_under_minute_witness:
  "(0::int) \<le> 59 \<and> (59::int) < 60 \<and> uptime_human 59 = Inr ''0 minutes''"
  using uptime_human_under_minute [of 59] by simp

end
