(* ===== verification/Calendar.thy ===== *)
theory Calendar
  imports Prelude
begin

text \<open>
  The proleptic Gregorian calendar as Go's \<open>time\<close> package computes it when it
  formats an instant: the civil date of a day number counted from 1970-01-01
  (\<open>civil_from_days\<close>, the era/day-of-era computation over 400-year eras of
  146097 days), and its inverse \<open>days_from_civil\<close>, a device of the statements
  that reads a date back. The main facts: every field of \<open>civil_from_days\<close> is
  in range (month 1--12, day 1--31) and \<open>days_from_civil\<close> undoes it. The core
  is the bound on the year of the era and the day of the year
  (\<open>civil_doe\<close>), proved by splitting a day of the era into centuries,
  four-year cycles, years and days.
\<close>

subsection \<open>Civil dates\<close>

record civil =
  c_year :: int
  c_month :: int
  c_day :: int

text \<open>The civil date of day \<open>days\<close> (0 is 1970-01-01): the shifted day \<open>z\<close>
  counts from 0000-03-01; \<open>era\<close> is its 400-year era (floor division),
  \<open>doe\<close> the day of the era, \<open>yoe\<close> the year of the era, \<open>doy\<close> the day of
  the March-based year and \<open>mp\<close> its month, 0 for March.\<close>

definition civil_from_days :: "int \<Rightarrow> civil" where
  "civil_from_days days =
     (let z = days + 719468;
          era = z div 146097;
          doe = z - era * 146097;
          yoe = (doe - doe div 1460 + doe div 36524 - doe div 146096) div 365;
          doy = doe - (365 * yoe + yoe div 4 - yoe div 100);
          mp = (5 * doy + 2) div 153;
          d = doy - (153 * mp + 2) div 5 + 1;
          m = (if mp < 10 then mp + 3 else mp - 9);
          y = yoe + era * 400
      in \<lparr>c_year = (if m \<le> 2 then y + 1 else y), c_month = m, c_day = d\<rparr>)"

text \<open>The inverse: the day number of a civil date, with March as the first month
  of the computational year so that the leap day falls at its end.\<close>

definition days_from_civil :: "int \<Rightarrow> int \<Rightarrow> int \<Rightarrow> int" where
  "days_from_civil y m d =
     (let y' = (if m \<le> 2 then y - 1 else y);
          era = y' div 400;
          yoe = y' - era * 400;
          mp = (if 2 < m then m - 3 else m + 9);
          doy = (153 * mp + 2) div 5 + d - 1;
          doe = yoe * 365 + yoe div 4 - yoe div 100 + doy
      in era * 146097 + doe - 719468)"

subsection \<open>Year of the era and day of the year\<close>

lemma yoe_decomp:
  fixes c q k j :: int
  assumes c: "0 \<le> c" "c \<le> 3" and q: "0 \<le> q" "q \<le> 24" and k: "0 \<le> k" "k \<le> 3"
    and j: "0 \<le> j" "j \<le> 365" "j = 365 \<longrightarrow> k = 3 \<and> q < 24"
    and doe: "doe = 36524 * c + 1461 * q + 365 * k + j"
  shows "(doe - doe div 1460 + doe div 36524 - doe div 146096) div 365 = 100 * c + 4 * q + k"
    and "doe - (365 * (100 * c + 4 * q + k) + (100 * c + 4 * q + k) div 4 - (100 * c + 4 * q + k) div 100) = j"
proof -
  have jq: "j \<le> 364 \<or> (k = 3 \<and> q \<le> 23)"
    using j by linarith
  define X where "X = 24 * c + q + 365 * k + j"
  define \<delta> where "\<delta> = X div 1460"
  have X: "1460 * \<delta> \<le> X" "X < 1460 * \<delta> + 1460"
    unfolding \<delta>_def by simp_all
  have d01: "\<delta> = 0 \<or> \<delta> = 1"
    using X c q k j unfolding X_def by linarith
  have b: "1461 * q + 365 * k + j \<le> 36523"
  proof (cases "j \<le> 364")
    case True
    then show ?thesis using q k by linarith
  next
    case False
    with jq have "k = 3" "q \<le> 23" by auto
    then show ?thesis using j by linarith
  qed
  have e0: "doe div 146096 = 0"
    using b c q k j doe by (intro div_int_eqI [of doe]) simp_all
  have e1: "doe div 36524 = c"
    using b c q k j doe by (intro div_int_eqI [of "1461 * q + 365 * k + j"]) simp_all
  have e2: "doe div 1460 = 25 * c + q + \<delta>"
    using X doe unfolding X_def by (intro div_int_eqI [of "X - 1460 * \<delta>"]) (simp_all add: X_def)
  have r: "0 \<le> j - \<delta> \<and> j - \<delta> < 365"
    using d01
  proof
    assume "\<delta> = 0"
    then show ?thesis
      using jq X c q k j unfolding X_def by (elim disjE conjE) linarith+
  next
    assume "\<delta> = 1"
    then show ?thesis
      using X c q k j unfolding X_def by linarith
  qed
  show "(doe - doe div 1460 + doe div 36524 - doe div 146096) div 365 = 100 * c + 4 * q + k"
    unfolding e0 e1 e2 using r doe by (intro div_int_eqI [of "j - \<delta>"]) (simp_all add: algebra_simps)
  have f4: "(100 * c + 4 * q + k) div 4 = 25 * c + q"
    using k by (intro div_int_eqI [of k]) simp_all
  have f100: "(100 * c + 4 * q + k) div 100 = c"
    using q k by (intro div_int_eqI [of "4 * q + k"]) simp_all
  show "doe - (365 * (100 * c + 4 * q + k) + (100 * c + 4 * q + k) div 4 - (100 * c + 4 * q + k) div 100) = j"
    unfolding f4 f100 doe by simp
qed

lemma doe_decomp:
  fixes doe :: int
  assumes "0 \<le> doe" "doe \<le> 146095"
  obtains c q k j where "0 \<le> c" "c \<le> 3" "0 \<le> q" "q \<le> 24" "0 \<le> k" "k \<le> 3"
    "0 \<le> j" "j \<le> 365" "j = 365 \<longrightarrow> k = 3 \<and> q < 24" "doe = 36524 * c + 1461 * q + 365 * k + j"
proof -
  define c where "c = doe div 36524"
  define r where "r = doe mod 36524"
  define q where "q = r div 1461"
  define p where "p = r mod 1461"
  define k where "k = min 3 (p div 365)"
  define j where "j = p - 365 * k"
  have cr: "doe = 36524 * c + r" "0 \<le> r" "r < 36524"
    unfolding c_def r_def by simp_all
  have qp: "r = 1461 * q + p" "0 \<le> p" "p < 1461"
    unfolding q_def p_def by simp_all
  have pd: "365 * (p div 365) \<le> p" "p < 365 * (p div 365) + 365"
    by simp_all
  have c3: "0 \<le> c" "c \<le> 3"
    using cr assms by linarith+
  have q24: "0 \<le> q" "q \<le> 24"
    using cr qp by linarith+
  show ?thesis
  proof (cases "p div 365 \<le> 3")
    case True
    then have kj: "k = p div 365" "j = p - 365 * (p div 365)"
      unfolding k_def j_def by simp_all
    have "0 \<le> k" "k \<le> 3" "0 \<le> j" "j \<le> 364"
      using kj True pd qp by simp_all
    moreover have "doe = 36524 * c + 1461 * q + 365 * k + j"
      using kj cr qp by simp
    ultimately show ?thesis
      using that [of c q k j] c3 q24 by simp
  next
    case False
    then have "p = 1460" "k = 3" "j = 365"
      using pd qp unfolding k_def j_def by simp_all
    moreover have "q < 24"
      using cr qp \<open>p = 1460\<close> by linarith
    ultimately show ?thesis
      using that [of c q k j] c3 q24 cr qp by simp
  qed
qed

lemma civil_doe:
  fixes doe :: int
  assumes "0 \<le> doe" "doe < 146097"
  defines "yoe \<equiv> (doe - doe div 1460 + doe div 36524 - doe div 146096) div 365"
  shows "0 \<le> yoe \<and> yoe \<le> 399 \<and> 0 \<le> doe - (365 * yoe + yoe div 4 - yoe div 100) \<and>
         doe - (365 * yoe + yoe div 4 - yoe div 100) \<le> 365"
proof (cases "doe = 146096")
  case True
  then show ?thesis
    unfolding yoe_def by simp
next
  case False
  with assms(2) have le: "doe \<le> 146095"
    by simp
  obtain c q k j where cqkj: "0 \<le> c" "c \<le> 3" "0 \<le> q" "q \<le> 24" "0 \<le> k" "k \<le> 3"
    "0 \<le> j" "j \<le> 365" "j = 365 \<longrightarrow> k = 3 \<and> q < 24" "doe = 36524 * c + 1461 * q + 365 * k + j"
    using doe_decomp [OF assms(1) le] by blast
  then have "yoe = 100 * c + 4 * q + k"
    unfolding yoe_def by (rule yoe_decomp(1))
  moreover have "doe - (365 * (100 * c + 4 * q + k) + (100 * c + 4 * q + k) div 4 - (100 * c + 4 * q + k) div 100) = j"
    using cqkj by (rule yoe_decomp(2))
  ultimately show ?thesis
    using cqkj by simp
qed

subsection \<open>Fields of the civil date and the inverse\<close>

lemma month_of_doy:
  fixes doy :: int
  assumes "0 \<le> doy" "doy \<le> 365"
  defines "mp \<equiv> (5 * doy + 2) div 153"
  shows "0 \<le> mp \<and> mp \<le> 11 \<and> 1 \<le> doy - (153 * mp + 2) div 5 + 1 \<and> doy - (153 * mp + 2) div 5 + 1 \<le> 31"
proof -
  have m: "153 * mp \<le> 5 * doy + 2" "5 * doy + 2 < 153 * mp + 153"
    unfolding mp_def by simp_all
  define t where "t = (153 * mp + 2) div 5"
  have t: "5 * t \<le> 153 * mp + 2" "153 * mp + 2 < 5 * t + 5"
    unfolding t_def by simp_all
  show ?thesis
    using m t assms(1,2) unfolding t_def [symmetric] by linarith
qed

lemma civil_from_days_fields:
  fixes days :: int
  defines "z \<equiv> days + 719468"
  defines "era \<equiv> z div 146097"
  defines "doe \<equiv> z - era * 146097"
  defines "yoe \<equiv> (doe - doe div 1460 + doe div 36524 - doe div 146096) div 365"
  defines "doy \<equiv> doe - (365 * yoe + yoe div 4 - yoe div 100)"
  defines "mp \<equiv> (5 * doy + 2) div 153"
  defines "d \<equiv> doy - (153 * mp + 2) div 5 + 1"
  defines "m \<equiv> (if mp < 10 then mp + 3 else mp - 9)"
  defines "y \<equiv> yoe + era * 400"
  shows "civil_from_days days = \<lparr>c_year = (if m \<le> 2 then y + 1 else y), c_month = m, c_day = d\<rparr>"
    and "0 \<le> doe" "doe < 146097" "0 \<le> yoe" "yoe \<le> 399" "0 \<le> doy" "doy \<le> 365"
    and "0 \<le> mp" "mp \<le> 11" "1 \<le> d" "d \<le> 31"
proof -
  show "civil_from_days days = \<lparr>c_year = (if m \<le> 2 then y + 1 else y), c_month = m, c_day = d\<rparr>"
    unfolding civil_from_days_def Let_def assms ..
  have doe_mod: "doe = z mod 146097"
    unfolding doe_def era_def by (simp add: minus_div_mult_eq_mod [symmetric] mult.commute)
  show doe: "0 \<le> doe" "doe < 146097"
    unfolding doe_mod by simp_all
  show "0 \<le> yoe" "yoe \<le> 399" "0 \<le> doy" "doy \<le> 365"
    using civil_doe [OF doe] unfolding yoe_def [symmetric] doy_def by simp_all
  then show "0 \<le> mp" "mp \<le> 11" "1 \<le> d" "d \<le> 31"
    using month_of_doy [of doy] unfolding mp_def [symmetric] d_def by simp_all
qed
lemma days_from_civil_inverse:
  "days_from_civil (c_year (civil_from_days days)) (c_month (civil_from_days days)) (c_day (civil_from_days days))
     = days"
proof -
  define z where "z = days + 719468"
  define era where "era = z div 146097"
  define doe where "doe = z - era * 146097"
  define yoe where "yoe = (doe - doe div 1460 + doe div 36524 - doe div 146096) div 365"
  define doy where "doy = doe - (365 * yoe + yoe div 4 - yoe div 100)"
  define mp where "mp = (5 * doy + 2) div 153"
  define d where "d = doy - (153 * mp + 2) div 5 + 1"
  define m where "m = (if mp < 10 then mp + 3 else mp - 9)"
  define y where "y = yoe + era * 400"
  note F = civil_from_days_fields [of days, folded z_def, folded era_def, folded doe_def, folded yoe_def,
    folded doy_def, folded mp_def, folded d_def, folded m_def, folded y_def]
  have y': "(if m \<le> 2 then (if m \<le> 2 then y + 1 else y) - 1 else (if m \<le> 2 then y + 1 else y)) = y"
    by simp
  have era': "y div 400 = era"
    using F(4,5) unfolding y_def by (intro div_int_eqI [of yoe]) simp_all
  have yoe': "y - era * 400 = yoe"
    unfolding y_def by simp
  have mp': "(if 2 < m then m - 3 else m + 9) = mp"
    using F(8,9) unfolding m_def by auto
  have doy': "(153 * mp + 2) div 5 + d - 1 = doy"
    unfolding d_def by simp
  have doe': "yoe * 365 + yoe div 4 - yoe div 100 + doy = doe"
    unfolding doy_def by simp
  have "days_from_civil (if m \<le> 2 then y + 1 else y) m d = era * 146097 + doe - 719468"
    unfolding days_from_civil_def Let_def y' era' yoe' mp' doy' doe' ..
  also have "\<dots> = days"
    unfolding doe_def z_def by simp
  finally show ?thesis
    unfolding F(1) by simp
qed

lemma civil_from_days_ranges:
  "1 \<le> c_month (civil_from_days z) \<and> c_month (civil_from_days z) \<le> 12 \<and>
   1 \<le> c_day (civil_from_days z) \<and> c_day (civil_from_days z) \<le> 31"
proof -
  define z' where "z' = z + 719468"
  define era where "era = z' div 146097"
  define doe where "doe = z' - era * 146097"
  define yoe where "yoe = (doe - doe div 1460 + doe div 36524 - doe div 146096) div 365"
  define doy where "doy = doe - (365 * yoe + yoe div 4 - yoe div 100)"
  define mp where "mp = (5 * doy + 2) div 153"
  define d where "d = doy - (153 * mp + 2) div 5 + 1"
  define m where "m = (if mp < 10 then mp + 3 else mp - 9)"
  define y where "y = yoe + era * 400"
  note F = civil_from_days_fields [of z, folded z'_def, folded era_def, folded doe_def, folded yoe_def,
    folded doy_def, folded mp_def, folded d_def, folded m_def, folded y_def]
  have "1 \<le> m" "m \<le> 12"
    using F(8,9) unfolding m_def by simp_all
  then show ?thesis
    using F(10,11) unfolding F(1) by simp
qed

end
