(* ===== verification/Timestamp.thy ===== *)
theory Timestamp
  imports Calendar "HOL-Library.Monad_Syntax"
begin

text \<open>
  The timestamps of both handlers, \<open>time.Now().UTC().Format(time.RFC3339)\<close>
  (\<open>src/app_go/main.go\<close> lines 126 and 148). The wall clock is read as whole
  Unix seconds (RFC 3339 without fractional seconds drops the nanoseconds); the
  instant is split into days and seconds of the day with floor division, the day
  number is turned into a proleptic Gregorian date by the closed-form
  era/day-of-era computation, and the fields are printed as Go's \<open>appendInt\<close>
  prints them: a minus sign for negative values, then the decimal digits padded
  with zeros to the field width. In UTC the zone is printed as \<open>Z\<close>.
\<close>

subsection \<open>Field printing (Go's \<open>appendInt(b, x, width)\<close>)\<close>

definition append_int :: "int \<Rightarrow> nat \<Rightarrow> string" where
  "append_int x width =
     (let ds = nat_digits (nat \<bar>x\<bar>)
      in (if x < 0 then ''-'' else []) @ replicate (width - length ds) CHR ''0'' @ ds)"

subsection \<open>RFC 3339 in UTC\<close>

definition rfc3339_fields :: "civil \<Rightarrow> int \<Rightarrow> string" where
  "rfc3339_fields c secs =
     append_int (c_year c) 4 @ ''-'' @ append_int (c_month c) 2 @ ''-'' @
     append_int (c_day c) 2 @ ''T'' @ append_int (secs div 3600) 2 @ '':'' @
     append_int (secs mod 3600 div 60) 2 @ '':'' @ append_int (secs mod 60) 2 @ ''Z''"

definition rfc3339_utc :: "int \<Rightarrow> string" where
  "rfc3339_utc t = rfc3339_fields (civil_from_days (t div 86400)) (t mod 86400)"

subsection \<open>Reading an RFC 3339 UTC timestamp\<close>

text \<open>A reader for the timestamps, a device of the statements: a field of exactly
  \<open>w\<close> decimal digits followed by the separator \<open>sep\<close>.\<close>

definition read_field :: "nat \<Rightarrow> char \<Rightarrow> string \<Rightarrow> (nat \<times> string) option" where
  "read_field w sep s =
     (case dropWhile is_digit s of
        c # r \<Rightarrow> if c = sep \<and> length (takeWhile is_digit s) = w
                 then Some (digits_val (takeWhile is_digit s), r) else None
      | [] \<Rightarrow> None)"

text \<open>\<open>YYYY-MM-DDThh:mm:ssZ\<close> with every field in its range (the day at most 31,
  the second at most 59), read back to Unix seconds.\<close>

definition parse_rfc3339 :: "string \<Rightarrow> int option" where
  "parse_rfc3339 s = do {
     (y, s1) \<leftarrow> read_field 4 CHR ''-'' s;
     (mo, s2) \<leftarrow> read_field 2 CHR ''-'' s1;
     (d, s3) \<leftarrow> read_field 2 CHR ''T'' s2;
     (h, s4) \<leftarrow> read_field 2 CHR '':'' s3;
     (mi, s5) \<leftarrow> read_field 2 CHR '':'' s4;
     (se, s6) \<leftarrow> read_field 2 CHR ''Z'' s5;
     if s6 = [] \<and> 1 \<le> mo \<and> mo \<le> 12 \<and> 1 \<le> d \<and> d \<le> 31 \<and> h < 24 \<and> mi < 60 \<and> se < 60
     then Some (days_from_civil (int y) (int mo) (int d) * 86400 + int (h * 3600 + mi * 60 + se))
     else None
   }"

subsection \<open>Evaluation\<close>

lemma civil_examples:
  "civil_from_days 0 = \<lparr>c_year = 1970, c_month = 1, c_day = 1\<rparr>"
  "civil_from_days 19675 = \<lparr>c_year = 2023, c_month = 11, c_day = 14\<rparr>"
  "civil_from_days 11016 = \<lparr>c_year = 2000, c_month = 2, c_day = 29\<rparr>"
  "civil_from_days (-1) = \<lparr>c_year = 1969, c_month = 12, c_day = 31\<rparr>"
  "civil_from_days 2932896 = \<lparr>c_year = 9999, c_month = 12, c_day = 31\<rparr>"
  by code_simp+

subsection \<open>Reading the fields back\<close>

lemma append_int_nonneg:
  "0 \<le> x \<Longrightarrow> append_int x w = replicate (w - length (nat_digits (nat x))) CHR ''0'' @ nat_digits (nat x)"
  by (simp add: append_int_def Let_def)

lemma not_digit_seps [simp]:
  "\<not> is_digit CHR ''-''" "\<not> is_digit CHR ''T''" "\<not> is_digit CHR '':''" "\<not> is_digit CHR ''Z''"
  by (simp_all add: is_digit_def)

lemma read_field_append_int:
  assumes "0 \<le> x" "x < 10 ^ w" "0 < w" "\<not> is_digit sep"
  shows "read_field w sep (append_int x w @ sep # r) = Some (nat x, r)"
proof -
  let ?ds = "nat_digits (nat x)"
  have len: "length ?ds \<le> w"
    using assms(1-3) by (intro length_nat_digits) (simp_all add: nat_less_iff)
  have dig: "\<And>c. c \<in> set (replicate (w - length ?ds) CHR ''0'' @ ?ds) \<Longrightarrow> is_digit c"
    by auto
  have tw: "takeWhile is_digit (append_int x w @ sep # r) = replicate (w - length ?ds) CHR ''0'' @ ?ds"
    unfolding append_int_nonneg [OF assms(1)]
    using takeWhile_append2 [of "replicate (w - length ?ds) CHR ''0'' @ ?ds" is_digit "sep # r", OF dig] assms(4)
    by simp
  have dw: "dropWhile is_digit (append_int x w @ sep # r) = sep # r"
    unfolding append_int_nonneg [OF assms(1)]
    using dropWhile_append2 [of "replicate (w - length ?ds) CHR ''0'' @ ?ds" is_digit "sep # r", OF dig] assms(4)
    by simp
  show ?thesis
    using len assms(1) by (simp add: read_field_def tw dw)
qed

lemma time_of_day: "secs div 3600 * 3600 + secs mod 3600 div 60 * 60 + secs mod 60 = (secs::int)"
proof -
  have "secs mod 3600 div 60 * 60 + secs mod 3600 mod 60 = secs mod 3600"
    by (rule div_mult_mod_eq)
  moreover have "secs mod 3600 mod 60 = secs mod 60"
    by (simp add: mod_mod_cancel)
  moreover have "secs div 3600 * 3600 + secs mod 3600 = secs"
    by (rule div_mult_mod_eq)
  ultimately show ?thesis
    by linarith
qed

lemma rfc3339_reads_back:
  assumes "0 \<le> c_year (civil_from_days (t div 86400))" "c_year (civil_from_days (t div 86400)) \<le> 9999"
  shows "parse_rfc3339 (rfc3339_utc t) = Some t"
proof -
  define c where "c = civil_from_days (t div 86400)"
  define secs where "secs = t mod 86400"
  have sr: "0 \<le> secs" "secs < 86400"
    unfolding secs_def by simp_all
  have cr: "1 \<le> c_month c" "c_month c \<le> 12" "1 \<le> c_day c" "c_day c \<le> 31" "0 \<le> c_year c" "c_year c < 10 ^ 4"
    using civil_from_days_ranges [of "t div 86400"] assms unfolding c_def by simp_all
  have tr: "0 \<le> secs div 3600" "secs div 3600 < 24" "0 \<le> secs mod 3600 div 60" "secs mod 3600 div 60 < 60"
    "0 \<le> secs mod 60" "secs mod 60 < 60"
    using sr by (simp_all add: div_less_iff_less_mult)
  have str: "rfc3339_utc t = append_int (c_year c) 4 @ CHR ''-'' # append_int (c_month c) 2 @ CHR ''-'' #
      append_int (c_day c) 2 @ CHR ''T'' # append_int (secs div 3600) 2 @ CHR '':'' #
      append_int (secs mod 3600 div 60) 2 @ CHR '':'' # append_int (secs mod 60) 2 @ CHR ''Z'' # []"
    by (simp add: rfc3339_utc_def rfc3339_fields_def c_def secs_def)
  have inv: "days_from_civil (c_year c) (c_month c) (c_day c) = t div 86400"
    unfolding c_def by (rule days_from_civil_inverse)
  have "parse_rfc3339 (rfc3339_utc t) =
      Some (days_from_civil (c_year c) (c_month c) (c_day c) * 86400 +
            (secs div 3600 * 3600 + secs mod 3600 div 60 * 60 + secs mod 60))"
    using cr tr unfolding str parse_rfc3339_def
    by (simp add: read_field_append_int nat_less_iff nat_le_iff Suc_le_eq)
  then show ?thesis
    using time_of_day [of secs] by (simp add: inv secs_def)
qed

text \<open>Evaluation: the epoch, an ordinary instant, a leap day, the second before the epoch and the last second of year 9999.\<close>

lemma rfc3339_utc_examples:
  "rfc3339_utc 0 = ''1970-01-01T00:00:00Z'' \<and>
   rfc3339_utc 1700000000 = ''2023-11-14T22:13:20Z'' \<and>
   rfc3339_utc 951782400 = ''2000-02-29T00:00:00Z'' \<and>
   rfc3339_utc (-1) = ''1969-12-31T23:59:59Z'' \<and>
   rfc3339_utc 253402300799 = ''9999-12-31T23:59:59Z''"
  by (simp add: rfc3339_utc_def civil_examples rfc3339_fields_def append_int_def model_simps)

text \<open>C13: the timestamp is a valid RFC 3339 UTC timestamp that reads back to the
  instant: for every wall-clock second whose year has four digits (0000--9999,
  the years RFC 3339 can express), the reader finds every field in range and
  returns that same second.\<close>

theorem rfc3339_roundtrip:
  assumes "0 \<le> c_year (civil_from_days (t div 86400))" "c_year (civil_from_days (t div 86400)) \<le> 9999"
  shows "parse_rfc3339 (rfc3339_utc t) = Some t"
  using assms by (rule rfc3339_reads_back)

theorem rfc3339_roundtrip_witness:
  "0 \<le> c_year (civil_from_days (1700000000 div 86400)) \<and> c_year (civil_from_days (1700000000 div 86400)) \<le> 9999 \<and>
   parse_rfc3339 (rfc3339_utc 1700000000) = Some 1700000000"
  using rfc3339_roundtrip [of 1700000000] by (simp add: civil_examples)

end
