(* ===== verification/Handlers.thy ===== *)
theory Handlers
  imports Uptime Timestamp
begin

text \<open>
  The two request handlers of \<open>src/app_go/main.go\<close> and the data they return.
  The Go structs (lines 16--64) are records; their JSON form, as \<open>encoding/json\<close>
  writes them with the struct tags in field order, is a \<open>json\<close> value. The
  facts the handlers read from the host and the Go runtime are an explicit record
  \<open>host_env\<close>; the request is the part of \<open>echo.Context\<close> the code reads, with
  \<open>c.RealIP()\<close> as the address the framework resolved. A handler reads the
  monotonic clock (through \<open>getUptime\<close>) and the wall clock (for the timestamp);
  both readings are arguments. \<open>c.JSON(200, v)\<close> is a response with status 200
  and body \<open>v\<close>; a panic of \<open>getUptime\<close> would propagate as \<open>Inl\<close>.
\<close>

subsection \<open>Response structures (main.go 16--64)\<close>

datatype json = JStr string | JInt int | JObj "(string \<times> json) list" | JArr "json list"

record service =
  svc_name :: string
  svc_version :: string
  svc_description :: string
  svc_framework :: string

record system =
  sys_hostname :: string
  sys_platform :: string
  sys_platform_version :: string
  sys_architecture :: string
  sys_cpu_count :: int
  sys_go_version :: string

record runtime_info =
  rt_uptime_seconds :: int
  rt_uptime_human :: string
  rt_current_time :: string
  rt_timezone :: string

record request_info =
  ri_client_ip :: string
  ri_user_agent :: string
  ri_method :: string
  ri_path :: string

record endpoint =
  ep_path :: string
  ep_method :: string
  ep_description :: string

record service_info =
  si_service :: service
  si_system :: system
  si_runtime :: runtime_info
  si_request :: request_info
  si_endpoints :: "endpoint list"

record health_response =
  hr_status :: string
  hr_timestamp :: string
  hr_uptime_seconds :: int

subsection \<open>JSON encoding by the struct tags\<close>

definition json_of_service :: "service \<Rightarrow> json" where
  "json_of_service s = JObj [(''name'', JStr (svc_name s)), (''version'', JStr (svc_version s)),
     (''description'', JStr (svc_description s)), (''framework'', JStr (svc_framework s))]"

definition json_of_system :: "system \<Rightarrow> json" where
  "json_of_system s = JObj [(''hostname'', JStr (sys_hostname s)), (''platform'', JStr (sys_platform s)),
     (''platform_version'', JStr (sys_platform_version s)), (''architecture'', JStr (sys_architecture s)),
     (''cpu_count'', JInt (sys_cpu_count s)), (''go_version'', JStr (sys_go_version s))]"

definition json_of_runtime :: "runtime_info \<Rightarrow> json" where
  "json_of_runtime r = JObj [(''uptime_seconds'', JInt (rt_uptime_seconds r)),
     (''uptime_human'', JStr (rt_uptime_human r)), (''current_time'', JStr (rt_current_time r)),
     (''timezone'', JStr (rt_timezone r))]"

definition json_of_request :: "request_info \<Rightarrow> json" where
  "json_of_request r = JObj [(''client_ip'', JStr (ri_client_ip r)), (''user_agent'', JStr (ri_user_agent r)),
     (''method'', JStr (ri_method r)), (''path'', JStr (ri_path r))]"

definition json_of_endpoint :: "endpoint \<Rightarrow> json" where
  "json_of_endpoint e = JObj [(''path'', JStr (ep_path e)), (''method'', JStr (ep_method e)),
     (''description'', JStr (ep_description e))]"

definition json_of_service_info :: "service_info \<Rightarrow> json" where
  "json_of_service_info i = JObj [(''service'', json_of_service (si_service i)),
     (''system'', json_of_system (si_system i)), (''runtime'', json_of_runtime (si_runtime i)),
     (''request'', json_of_request (si_request i)),
     (''endpoints'', JArr (map json_of_endpoint (si_endpoints i)))]"

definition json_of_health :: "health_response \<Rightarrow> json" where
  "json_of_health h = JObj [(''status'', JStr (hr_status h)), (''timestamp'', JStr (hr_timestamp h)),
     (''uptime_seconds'', JInt (hr_uptime_seconds h))]"

text \<open>Reading a JSON value along a path of object keys (a device of the statements).\<close>

fun jlookup :: "string list \<Rightarrow> json \<Rightarrow> json option" where
  "jlookup [] j = Some j"
| "jlookup (k # ks) (JObj kvs) = (case map_of kvs k of None \<Rightarrow> None | Some j \<Rightarrow> jlookup ks j)"
| "jlookup (k # ks) _ = None"

subsection \<open>Host facts (\<open>getSystemInfo\<close>, main.go 94--104)\<close>

text \<open>\<open>env_hostname\<close> is the result of \<open>os.Hostname()\<close>: \<open>None\<close> when it fails,
  in which case Go returns the empty name together with the error.\<close>

record host_env =
  env_hostname :: "string option"
  env_goos :: string
  env_goarch :: string
  env_num_cpu :: int
  env_go_version :: string

definition os_hostname_name :: "host_env \<Rightarrow> string" where
  "os_hostname_name env = (case env_hostname env of None \<Rightarrow> [] | Some h \<Rightarrow> h)"

definition get_system_info :: "host_env \<Rightarrow> system" where
  "get_system_info env =
     \<lparr>sys_hostname = os_hostname_name env, sys_platform = env_goos env,
      sys_platform_version = env_goos env @ '' '' @ env_goarch env,
      sys_architecture = env_goarch env, sys_cpu_count = env_num_cpu env,
      sys_go_version = env_go_version env\<rparr>"

subsection \<open>The request (echo.Context)\<close>

record http_request =
  req_method :: string
  req_path :: string
  req_remote_addr :: string
  req_user_agent :: string
  req_real_ip :: string

text \<open>main.go 110--113: the resolved client address, or the raw remote address when
  the framework resolved none.\<close>

definition client_ip :: "http_request \<Rightarrow> string" where
  "client_ip c = (if req_real_ip c = [] then req_remote_addr c else req_real_ip c)"

text \<open>An answer: the status code and the body, \<open>None\<close> for an answer without one.\<close>

record http_response =
  resp_status :: nat
  resp_body :: "json option"

text \<open>\<open>c.JSON(code, v)\<close>: the status and the JSON encoding of \<open>v\<close> as the body.\<close>

definition json_response :: "nat \<Rightarrow> json \<Rightarrow> http_response" where
  "json_response code body = \<lparr>resp_status = code, resp_body = Some body\<rparr>"

text \<open>The value at a path of keys in the body of an answer (a device of the statements).\<close>

definition body_lookup :: "string list \<Rightarrow> http_response \<Rightarrow> json option" where
  "body_lookup ks r = (case resp_body r of None \<Rightarrow> None | Some j \<Rightarrow> jlookup ks j)"

subsection \<open>The root handler (\<open>mainHandler\<close>, main.go 106--142)\<close>

definition service_descriptor :: service where
  "service_descriptor = \<lparr>svc_name = ''devops-info-service'', svc_version = ''1.0.0'',
     svc_description = ''DevOps course info service'', svc_framework = ''Go (Echo)''\<rparr>"

definition endpoint_list :: "endpoint list" where
  "endpoint_list = [\<lparr>ep_path = ''/'', ep_method = ''GET'', ep_description = ''Service information''\<rparr>,
                    \<lparr>ep_path = ''/health'', ep_method = ''GET'', ep_description = ''Health check''\<rparr>]"

definition service_info_of :: "int \<times> string \<Rightarrow> system \<Rightarrow> int \<Rightarrow> http_request \<Rightarrow> service_info" where
  "service_info_of up sysinfo wall c =
     \<lparr>si_service = service_descriptor, si_system = sysinfo,
      si_runtime = \<lparr>rt_uptime_seconds = fst up, rt_uptime_human = snd up,
                    rt_current_time = rfc3339_utc wall, rt_timezone = ''UTC''\<rparr>,
      si_request = \<lparr>ri_client_ip = client_ip c, ri_user_agent = req_user_agent c,
                    ri_method = req_method c, ri_path = req_path c\<rparr>,
      si_endpoints = endpoint_list\<rparr>"

definition main_handler ::
  "host_env \<Rightarrow> int64 \<Rightarrow> int64 \<Rightarrow> int \<Rightarrow> http_request \<Rightarrow> go_panic + http_response" where
  "main_handler env start now wall c =
     (case get_uptime start now of
        Inl p \<Rightarrow> Inl p
      | Inr up \<Rightarrow> Inr (json_response 200
                   (json_of_service_info (service_info_of up (get_system_info env) wall c))))"

subsection \<open>The health handler (\<open>healthHandler\<close>, main.go 144--153)\<close>

definition health_handler :: "int64 \<Rightarrow> int64 \<Rightarrow> int \<Rightarrow> go_panic + http_response" where
  "health_handler start now wall =
     (case get_uptime start now of
        Inl p \<Rightarrow> Inl p
      | Inr up \<Rightarrow> Inr (json_response 200 (json_of_health
                   \<lparr>hr_status = ''healthy'', hr_timestamp = rfc3339_utc wall,
                    hr_uptime_seconds = fst up\<rparr>)))"

subsection \<open>Properties of the handlers\<close>

lemma main_handler_eq:
  "main_handler env start now wall c =
     Inr (json_response 200 (json_of_service_info
       (service_info_of (uptime_seconds start now, projr (uptime_human (uptime_seconds start now)))
          (get_system_info env) wall c)))"
  by (simp add: main_handler_def get_uptime_Inr)

lemma health_handler_eq:
  "health_handler start now wall =
     Inr (json_response 200 (JObj [(''status'', JStr ''healthy''), (''timestamp'', JStr (rfc3339_utc wall)),
                                    (''uptime_seconds'', JInt (uptime_seconds start now))]))"
  by (simp add: health_handler_def get_uptime_Inr json_of_health_def)

text \<open>C2: GET /health always answers 200 with status "healthy", the RFC 3339 UTC
  timestamp of the wall clock and the uptime seconds, which are non-negative once
  the monotonic clock has reached the start reading.\<close>

theorem health_handler_ok:
  assumes "sint start \<le> sint now"
  shows "\<exists>s. health_handler start now wall =
           Inr (json_response 200 (JObj [(''status'', JStr ''healthy''),
                  (''timestamp'', JStr (rfc3339_utc wall)), (''uptime_seconds'', JInt s)])) \<and>
         s = uptime_seconds start now \<and> 0 \<le> s"
  using uptime_seconds_nonneg_aux [OF assms] by (simp add: health_handler_eq)

theorem health_handler_ok_witness:
  "sint (0::int64) \<le> sint (5000000000::int64) \<and>
   (\<exists>s. health_handler 0 5000000000 1700000000 =
           Inr (json_response 200 (JObj [(''status'', JStr ''healthy''),
                  (''timestamp'', JStr (rfc3339_utc 1700000000)), (''uptime_seconds'', JInt s)])) \<and>
         s = uptime_seconds 0 5000000000 \<and> 0 \<le> s)"
  using health_handler_ok [of 0 5000000000 1700000000] by simp

text \<open>C3: GET / never panics and always answers 200 with the service descriptor, the
  host facts, the uptime of \<open>getUptime\<close>, the timestamp and zone "UTC", the
  request's method, path and user agent, the client address (the resolved one, else
  the raw remote address) and exactly the two static endpoint entries.\<close>

theorem main_handler_ok:
  "\<exists>info. main_handler env start now wall c = Inr (json_response 200 (json_of_service_info info)) \<and>
     si_service info = service_descriptor \<and> si_system info = get_system_info env \<and>
     rt_uptime_seconds (si_runtime info) = uptime_seconds start now \<and>
     rt_current_time (si_runtime info) = rfc3339_utc wall \<and> rt_timezone (si_runtime info) = ''UTC'' \<and>
     ri_method (si_request info) = req_method c \<and> ri_path (si_request info) = req_path c \<and>
     ri_user_agent (si_request info) = req_user_agent c \<and>
     ri_client_ip (si_request info) = (if req_real_ip c = [] then req_remote_addr c else req_real_ip c) \<and>
     map ep_path (si_endpoints info) = [''/'', ''/health''] \<and>
     map ep_method (si_endpoints info) = [''GET'', ''GET'']"
proof -
  let ?i = "service_info_of (uptime_seconds start now, projr (uptime_human (uptime_seconds start now)))
              (get_system_info env) wall c"
  show ?thesis
    unfolding main_handler_eq
    by (intro exI [of _ ?i]) (simp add: service_info_of_def client_ip_def endpoint_list_def)
qed

text \<open>C16: a failing \<open>os.Hostname()\<close> does not make GET / fail: the answer is still
  200 and the reported hostname is the empty string.\<close>

theorem hostname_failure_absorbed:
  assumes "env_hostname env = None"
  shows "\<exists>info. main_handler env start now wall c = Inr (json_response 200 (json_of_service_info info)) \<and>
           sys_hostname (si_system info) = []"
  using assms unfolding main_handler_eq
  by (intro exI [of _ "service_info_of (uptime_seconds start now, projr (uptime_human (uptime_seconds start now)))
                          (get_system_info env) wall c"])
     (simp add: service_info_of_def get_system_info_def os_hostname_name_def)

theorem hostname_failure_absorbed_witness:
  "env_hostname \<lparr>env_hostname = None, env_goos = ''linux'', env_goarch = ''amd64'', env_num_cpu = 4,
                  env_go_version = ''go1.22''\<rparr> = None \<and>
   (\<exists>info. main_handler \<lparr>env_hostname = None, env_goos = ''linux'', env_goarch = ''amd64'',
              env_num_cpu = 4, env_go_version = ''go1.22''\<rparr> 0 5000000000 1700000000
              \<lparr>req_method = ''GET'', req_path = ''/'', req_remote_addr = ''10.0.0.7:51000'',
               req_user_agent = ''curl'', req_real_ip = ''10.0.0.7''\<rparr>
            = Inr (json_response 200 (json_of_service_info info)) \<and> sys_hostname (si_system info) = [])"
  using hostname_failure_absorbed [of "\<lparr>env_hostname = None, env_goos = ''linux'', env_goarch = ''amd64'',
              env_num_cpu = 4, env_go_version = ''go1.22''\<rparr>" 0 5000000000 1700000000
              "\<lparr>req_method = ''GET'', req_path = ''/'', req_remote_addr = ''10.0.0.7:51000'',
               req_user_agent = ''curl'', req_real_ip = ''10.0.0.7''\<rparr>"] by simp

text \<open>C24: the two handlers agree on the uptime: for the same monotonic reading, the
  \<open>runtime.uptime_seconds\<close> field of GET / and the \<open>uptime_seconds\<close> field of
  GET /health hold the same number, both computed by \<open>getUptime\<close>.\<close>

theorem handlers_report_same_uptime:
  "\<exists>r1 r2. main_handler env start now w1 c = Inr r1 \<and> health_handler start now w2 = Inr r2 \<and>
     body_lookup [''runtime'', ''uptime_seconds''] r1 = Some (JInt (uptime_seconds start now)) \<and>
     body_lookup [''uptime_seconds''] r2 = Some (JInt (uptime_seconds start now))"
  by (simp add: main_handler_eq health_handler_eq json_response_def body_lookup_def json_of_service_info_def
      json_of_runtime_def service_info_of_def)

end
