(* ===== verification/Server.thy ===== *)
theory Server
  imports Handlers
begin

text \<open>
  The process around the handlers (\<open>main\<close> in \<open>src/app_go/main.go\<close>, lines 155--177):
  the listen address from \<open>PORT\<close> and \<open>HOST\<close>, the route table registered with
  \<open>e.GET\<close>, the \<open>Recover\<close> middleware, and the running server as a step relation
  over a state holding the start reading of the monotonic clock (captured once,
  line 14), the current clock readings and the responses sent so far. How Echo
  dispatches (exact path match, 404 for an unknown path, on a known path 204 for
  \<open>OPTIONS\<close> and 405 for any other method) and what \<open>Recover\<close> answers for a panic (500) are the
  framework's documented behaviour, modelled from its contract. The \<open>Logger\<close>
  middleware only writes a log line and is not modelled.
\<close>

subsection \<open>Listen address (main.go 164--174)\<close>

text \<open>\<open>os.Getenv\<close> returns the empty string for an unset variable.\<close>

definition getenv :: "(string \<rightharpoonup> string) \<Rightarrow> string \<Rightarrow> string" where
  "getenv env k = (case env k of None \<Rightarrow> [] | Some v \<Rightarrow> v)"

definition listen_port :: "(string \<rightharpoonup> string) \<Rightarrow> string" where
  "listen_port env = (let port = getenv env ''PORT'' in if port = [] then ''8080'' else port)"

definition listen_host :: "(string \<rightharpoonup> string) \<Rightarrow> string" where
  "listen_host env = (let host = getenv env ''HOST'' in if host = [] then ''0.0.0.0'' else host)"

definition listen_addr :: "(string \<rightharpoonup> string) \<Rightarrow> string" where
  "listen_addr env = listen_host env @ '':'' @ listen_port env"

subsection \<open>Routes and dispatch (main.go 158--162)\<close>

datatype route = RootRoute | HealthRoute

definition routes :: "(string \<times> string \<times> route) list" where
  "routes = [(''GET'', ''/'', RootRoute), (''GET'', ''/health'', HealthRoute)]"

text \<open>What the Echo instance of \<open>echo.New()\<close> (line 156) answers when no route
  matches: its default \<open>HTTPErrorHandler\<close> writes \<open>{"message": msg}\<close> with the
  status; for \<open>OPTIONS\<close> on a registered path its router runs
  \<open>optionsMethodHandler\<close>, which answers 204 without a body (the \<open>Allow\<close>
  header it sets is not modelled).\<close>

definition error_response :: "nat \<Rightarrow> string \<Rightarrow> http_response" where
  "error_response code msg = json_response code (JObj [(''message'', JStr msg)])"

definition no_content_response :: http_response where
  "no_content_response = \<lparr>resp_status = 204, resp_body = None\<rparr>"

text \<open>\<open>middleware.Recover()\<close>: a panic of the handler becomes a 500 answer.\<close>

definition recover_mw :: "go_panic + http_response \<Rightarrow> http_response" where
  "recover_mw r = (case r of Inl _ \<Rightarrow> error_response 500 ''Internal Server Error'' | Inr resp \<Rightarrow> resp)"

definition run_route :: "route \<Rightarrow> host_env \<Rightarrow> int64 \<Rightarrow> int64 \<Rightarrow> int \<Rightarrow> http_request \<Rightarrow> go_panic + http_response" where
  "run_route rt env start now wall c =
     (case rt of RootRoute \<Rightarrow> main_handler env start now wall c | HealthRoute \<Rightarrow> health_handler start now wall)"

definition dispatch :: "host_env \<Rightarrow> int64 \<Rightarrow> int64 \<Rightarrow> int \<Rightarrow> http_request \<Rightarrow> http_response" where
  "dispatch env start now wall c =
     (case find (\<lambda>(m, p, _). m = req_method c \<and> p = req_path c) routes of
        Some (_, _, rt) \<Rightarrow> recover_mw (run_route rt env start now wall c)
      | None \<Rightarrow> if list_ex (\<lambda>(_, p, _). p = req_path c) routes
                then (if req_method c = ''OPTIONS'' then no_content_response
                      else error_response 405 ''Method Not Allowed'')
                else error_response 404 ''Not Found'')"

subsection \<open>The running server\<close>

record server =
  srv_env :: host_env
  srv_start :: int64
  srv_now :: int64
  srv_wall :: int
  srv_log :: "(http_request \<times> http_response) list"

definition server_init :: "host_env \<Rightarrow> int64 \<Rightarrow> int \<Rightarrow> server" where
  "server_init env t w = \<lparr>srv_env = env, srv_start = t, srv_now = t, srv_wall = w, srv_log = []\<rparr>"

text \<open>A step either lets time pass (the monotonic clock never goes back; the wall
  clock may be set to anything) or serves one request completely at the current
  readings. Requests are served one after another here; concurrent requests each
  read the clock when they run.\<close>

inductive server_step :: "server \<Rightarrow> server \<Rightarrow> bool" where
  tick: "sint (srv_now s) \<le> sint t \<Longrightarrow> server_step s (s\<lparr>srv_now := t, srv_wall := w\<rparr>)"
| serve: "server_step s (s\<lparr>srv_log := srv_log s @
            [(c, dispatch (srv_env s) (srv_start s) (srv_now s) (srv_wall s) c)]\<rparr>)"

inductive reachable :: "server \<Rightarrow> bool" where
  init: "reachable (server_init env t w)"
| step: "reachable s \<Longrightarrow> server_step s s' \<Longrightarrow> reachable s'"

inductive_cases server_step_cases: "server_step s s'"

text \<open>The uptimes reported by GET /health, in the order of the log.\<close>

fun health_uptimes :: "(http_request \<times> http_response) list \<Rightarrow> int list" where
  "health_uptimes [] = []"
| "health_uptimes ((c, r) # rest) =
     (if req_method c = ''GET'' \<and> req_path c = ''/health'' \<and> resp_status r = 200
      then (case body_lookup [''uptime_seconds''] r of
              Some (JInt u) \<Rightarrow> [u] | _ \<Rightarrow> [])
      else []) @ health_uptimes rest"

text \<open>A concrete run used by the witnesses: the process starts at monotonic reading
  0; 5 s later, at wall time 1700000000, it serves one GET /health.\<close>

abbreviation example_env :: host_env where
  "example_env \<equiv> \<lparr>env_hostname = Some ''web-1'', env_goos = ''linux'', env_goarch = ''amd64'',
                   env_num_cpu = 2, env_go_version = ''go1.22''\<rparr>"

abbreviation example_health_req :: http_request where
  "example_health_req \<equiv> \<lparr>req_method = ''GET'', req_path = ''/health'', req_remote_addr = ''10.0.0.7:51000'',
                          req_user_agent = ''curl'', req_real_ip = []\<rparr>"

abbreviation example_run :: server where
  "example_run \<equiv> \<lparr>srv_env = example_env, srv_start = 0, srv_now = 5000000000, srv_wall = 1700000000,
     srv_log = [(example_health_req, dispatch example_env 0 5000000000 1700000000 example_health_req)]\<rparr>"

subsection \<open>Dispatch\<close>

lemma dispatch_root:
  "req_method c = ''GET'' \<Longrightarrow> req_path c = ''/'' \<Longrightarrow>
   dispatch env start now wall c = projr (main_handler env start now wall c)"
  by (simp add: dispatch_def routes_def run_route_def recover_mw_def main_handler_eq)

lemma dispatch_health:
  "req_method c = ''GET'' \<Longrightarrow> req_path c = ''/health'' \<Longrightarrow>
   dispatch env start now wall c =
     json_response 200 (JObj [(''status'', JStr ''healthy''), (''timestamp'', JStr (rfc3339_utc wall)),
                              (''uptime_seconds'', JInt (uptime_seconds start now))])"
  by (simp add: dispatch_def routes_def run_route_def recover_mw_def health_handler_eq)

lemma dispatch_unrouted:
  "\<not> (req_method c = ''GET'' \<and> (req_path c = ''/'' \<or> req_path c = ''/health'')) \<Longrightarrow>
   dispatch env start now wall c =
     (if req_path c = ''/'' \<or> req_path c = ''/health''
      then (if req_method c = ''OPTIONS'' then no_content_response else error_response 405 ''Method Not Allowed'')
      else error_response 404 ''Not Found'')"
  by (auto simp: dispatch_def routes_def)

lemma health_uptimes_append [simp]:
  "health_uptimes (xs @ ys) = health_uptimes xs @ health_uptimes ys"
  by (induction xs rule: health_uptimes.induct) auto

lemma health_uptimes_served:
  "health_uptimes [(c, dispatch env start now wall c)] =
     (if req_method c = ''GET'' \<and> req_path c = ''/health'' then [uptime_seconds start now] else [])"
proof (cases "req_method c = ''GET'' \<and> req_path c = ''/health''")
  case True
  then show ?thesis
    by (simp add: dispatch_health json_response_def body_lookup_def)
next
  case False
  then show ?thesis by auto
qed

subsection \<open>The server invariant\<close>

definition server_inv :: "server \<Rightarrow> bool" where
  "server_inv s \<longleftrightarrow> sint (srv_start s) \<le> sint (srv_now s) \<and> sorted (health_uptimes (srv_log s)) \<and>
     list_all (\<lambda>u. 0 \<le> u \<and> u \<le> uptime_seconds (srv_start s) (srv_now s)) (health_uptimes (srv_log s))"

lemma server_inv_init: "server_inv (server_init env t w)"
  by (simp add: server_inv_def server_init_def)

lemma server_step_inv:
  assumes "server_step s s'" "server_inv s"
  shows "server_inv s'"
  using assms
proof (induction rule: server_step.induct)
  case (tick s t w)
  then have le: "uptime_seconds (srv_start s) (srv_now s) \<le> uptime_seconds (srv_start s) t"
    by (intro uptime_seconds_le) (simp_all add: server_inv_def)
  with tick show ?case
    by (auto simp: server_inv_def list_all_iff)
next
  case (serve s c)
  let ?u = "uptime_seconds (srv_start s) (srv_now s)"
  let ?old = "health_uptimes (srv_log s)"
  have u: "0 \<le> ?u"
    using serve by (intro uptime_seconds_nonneg_aux) (simp add: server_inv_def)
  have old: "sorted ?old" "\<forall>v\<in>set ?old. 0 \<le> v \<and> v \<le> ?u"
    using serve by (simp_all add: server_inv_def list_all_iff)
  have "sorted (?old @ [?u])"
    using old by (simp add: sorted_append)
  with old u serve show ?case
    by (auto simp: server_inv_def list_all_iff health_uptimes_served simp del: health_uptimes.simps)
qed

lemma reachable_inv: "reachable s \<Longrightarrow> server_inv s"
  by (induction rule: reachable.induct) (auto intro: server_inv_init server_step_inv)

lemma reachable_one_request:
  assumes "sint start \<le> sint t"
  shows "reachable \<lparr>srv_env = env, srv_start = start, srv_now = t, srv_wall = w,
                     srv_log = [(c, dispatch env start t w c)]\<rparr>"
proof -
  have r0: "reachable (server_init env start 0)"
    by (rule reachable.init)
  have r1: "reachable ((server_init env start 0)\<lparr>srv_now := t, srv_wall := w\<rparr>)"
    by (rule reachable.step [OF r0 server_step.tick]) (simp add: server_init_def assms)
  show ?thesis
    using reachable.step [OF r1 server_step.serve] by (simp add: server_init_def)
qed

lemma reachable_example_run: "reachable example_run"
  by (rule reachable_one_request) simp

lemma dispatch_status_200:
  "req_method c = ''GET'' \<Longrightarrow> req_path c = ''/'' \<or> req_path c = ''/health'' \<Longrightarrow>
   resp_status (dispatch env start now wall c) = 200"
  by (auto simp: dispatch_root dispatch_health main_handler_eq json_response_def)

lemma dispatch_status_error:
  "\<not> (req_method c = ''GET'' \<and> (req_path c = ''/'' \<or> req_path c = ''/health'')) \<Longrightarrow>
   resp_status (dispatch env start now wall c) =
     (if req_path c = ''/'' \<or> req_path c = ''/health''
      then (if req_method c = ''OPTIONS'' then 204 else 405) else 404)"
  by (simp add: dispatch_unrouted error_response_def json_response_def no_content_response_def)

subsection \<open>Properties of the server\<close>

text \<open>C5: the status of every answer is determined by the route table: 200 for
  GET / and GET /health, 204 for OPTIONS and 405 for any other method on one of
  these paths, 404 for any other path. In particular \<open>Recover\<close> never answers
  500: no handler panics.\<close>

theorem dispatch_status:
  "resp_status (dispatch env start now wall c) =
     (if req_path c = ''/'' \<or> req_path c = ''/health''
      then (if req_method c = ''GET'' then 200 else if req_method c = ''OPTIONS'' then 204 else 405)
      else 404)"
  using dispatch_status_200 [of c env start now wall] dispatch_status_error [of c env start now wall]
  by auto

text \<open>C25: every endpoint that GET / advertises in its \<open>endpoints\<close> list is
  routed: a request with that method and path is answered 200.\<close>

theorem advertised_endpoints_served:
  assumes "ep \<in> set endpoint_list"
  shows "resp_status (dispatch env start now wall (c\<lparr>req_method := ep_method ep, req_path := ep_path ep\<rparr>)) = 200"
  using assms by (auto simp: endpoint_list_def intro: dispatch_status_200)

theorem advertised_endpoints_served_witness:
  "endpoint_list ! 1 \<in> set endpoint_list \<and>
   resp_status (dispatch \<lparr>env_hostname = None, env_goos = ''linux'', env_goarch = ''amd64'', env_num_cpu = 2,
       env_go_version = ''go1.22''\<rparr> 0 5000000000 1700000000
     (\<lparr>req_method = ''POST'', req_path = ''/x'', req_remote_addr = [], req_user_agent = [], req_real_ip = []\<rparr>
       \<lparr>req_method := ep_method (endpoint_list ! 1), req_path := ep_path (endpoint_list ! 1)\<rparr>)) = 200"
  using advertised_endpoints_served [of "endpoint_list ! 1"
      "\<lparr>env_hostname = None, env_goos = ''linux'', env_goarch = ''amd64'', env_num_cpu = 2,
        env_go_version = ''go1.22''\<rparr>" 0 5000000000 1700000000
      "\<lparr>req_method = ''POST'', req_path = ''/x'', req_remote_addr = [], req_user_agent = [], req_real_ip = []\<rparr>"]
  by (simp add: endpoint_list_def)

text \<open>Evaluation of the listen address: neither variable set, an empty PORT, both set.\<close>

lemma listen_addr_examples:
  "listen_addr Map.empty = ''0.0.0.0:8080'' \<and>
   listen_addr [''PORT'' \<mapsto> []] = ''0.0.0.0:8080'' \<and>
   listen_addr [''PORT'' \<mapsto> ''3000'', ''HOST'' \<mapsto> ''127.0.0.1''] = ''127.0.0.1:3000''"
  by (simp add: listen_addr_def listen_host_def listen_port_def getenv_def)

text \<open>C4: in every reachable state of the running server the uptimes reported by
  GET /health, in the order they were sent, are non-negative and never decrease.\<close>

theorem health_uptimes_monotone:
  assumes "reachable s"
  shows "sorted (health_uptimes (srv_log s)) \<and> list_all (\<lambda>u. 0 \<le> u) (health_uptimes (srv_log s))"
  using reachable_inv [OF assms] by (auto simp: server_inv_def list_all_iff)

theorem health_uptimes_monotone_witness:
  "reachable example_run \<and> sorted (health_uptimes (srv_log example_run)) \<and>
   list_all (\<lambda>u. 0 \<le> u) (health_uptimes (srv_log example_run))"
  using health_uptimes_monotone [OF reachable_example_run] reachable_example_run by blast

text \<open>C6: GET /health over HTTP meets the specification's contract: status 200, the
  field status is "healthy", the field timestamp is a valid RFC 3339 UTC timestamp
  that reads back to the wall-clock second (for the four-digit years RFC 3339 can
  express), and the field uptime_seconds is non-negative once the monotonic clock
  has reached the start reading.\<close>

theorem health_endpoint_contract:
  assumes "req_method c = ''GET''" "req_path c = ''/health''" "sint start \<le> sint now"
    and "0 \<le> c_year (civil_from_days (wall div 86400))" "c_year (civil_from_days (wall div 86400)) \<le> 9999"
  shows "resp_status (dispatch env start now wall c) = 200 \<and>
         body_lookup [''status''] (dispatch env start now wall c) = Some (JStr ''healthy'') \<and>
         (\<exists>ts. body_lookup [''timestamp''] (dispatch env start now wall c) = Some (JStr ts) \<and>
               parse_rfc3339 ts = Some wall) \<and>
         (\<exists>u. body_lookup [''uptime_seconds''] (dispatch env start now wall c) = Some (JInt u) \<and> 0 \<le> u)"
  using rfc3339_reads_back [OF assms(4,5)] uptime_seconds_nonneg_aux [OF assms(3)]
  by (simp add: dispatch_health [OF assms(1,2)] json_response_def body_lookup_def)

theorem health_endpoint_contract_witness:
  "req_method example_health_req = ''GET'' \<and> req_path example_health_req = ''/health'' \<and>
   sint (0::int64) \<le> sint (5000000000::int64) \<and>
   0 \<le> c_year (civil_from_days (1700000000 div 86400)) \<and> c_year (civil_from_days (1700000000 div 86400)) \<le> 9999 \<and>
   resp_status (dispatch example_env 0 5000000000 1700000000 example_health_req) = 200 \<and>
   body_lookup [''status''] (dispatch example_env 0 5000000000 1700000000 example_health_req) = Some (JStr ''healthy'') \<and>
   (\<exists>ts. body_lookup [''timestamp''] (dispatch example_env 0 5000000000 1700000000 example_health_req) = Some (JStr ts) \<and>
         parse_rfc3339 ts = Some 1700000000) \<and>
   (\<exists>u. body_lookup [''uptime_seconds''] (dispatch example_env 0 5000000000 1700000000 example_health_req) = Some (JInt u) \<and> 0 \<le> u)"
proof -
  have y: "c_year (civil_from_days (1700000000 div 86400)) = 2023"
    by (simp add: civil_examples)
  show ?thesis
    using health_endpoint_contract [of example_health_req 0 5000000000 1700000000 example_env] y by simp
qed

text \<open>C7: GET / over HTTP answers 200 with request.method "GET", request.path "/"
  and exactly the two static endpoint entries, as the specification's test of the
  root endpoint says.\<close>

theorem root_endpoint_contract:
  assumes "req_method c = ''GET''" "req_path c = ''/''"
  shows "resp_status (dispatch env start now wall c) = 200 \<and>
    body_lookup [''request'', ''method''] (dispatch env start now wall c) = Some (JStr ''GET'') \<and>
    body_lookup [''request'', ''path''] (dispatch env start now wall c) = Some (JStr ''/'') \<and>
    body_lookup [''endpoints''] (dispatch env start now wall c) =
      Some (JArr [JObj [(''path'', JStr ''/''), (''method'', JStr ''GET''), (''description'', JStr ''Service information'')],
                  JObj [(''path'', JStr ''/health''), (''method'', JStr ''GET''), (''description'', JStr ''Health check'')]])"
  using assms
  by (simp add: dispatch_root main_handler_eq json_response_def body_lookup_def json_of_service_info_def json_of_request_def
      json_of_endpoint_def service_info_of_def endpoint_list_def)

theorem root_endpoint_contract_witness:
  "req_method \<lparr>req_method = ''GET'', req_path = ''/'', req_remote_addr = ''10.0.0.7:51000'', req_user_agent = ''curl'', req_real_ip = []\<rparr> = ''GET'' \<and>
   req_path \<lparr>req_method = ''GET'', req_path = ''/'', req_remote_addr = ''10.0.0.7:51000'', req_user_agent = ''curl'', req_real_ip = []\<rparr> = ''/'' \<and>
   resp_status (dispatch example_env 0 5000000000 1700000000
     \<lparr>req_method = ''GET'', req_path = ''/'', req_remote_addr = ''10.0.0.7:51000'', req_user_agent = ''curl'', req_real_ip = []\<rparr>) = 200"
  using root_endpoint_contract [of "\<lparr>req_method = ''GET'', req_path = ''/'', req_remote_addr = ''10.0.0.7:51000'', req_user_agent = ''curl'', req_real_ip = []\<rparr>"
      example_env 0 5000000000 1700000000] by simp
end
