(* ===== verification/Refinement.thy ===== *)
theory Refinement
  imports Server
begin

text \<open>
  What the running server promises about \<open>GET /health\<close>, as an abstract
  specification, and the refinement of that specification by the model of
  \<open>src/app_go/main.go\<close> (\<open>Server.server_step\<close>). The abstract state is the time
  elapsed since the process started, in nanoseconds, and the list of uptimes
  reported so far. Time only moves forward; a report of the health endpoint
  appends the elapsed whole seconds, up to a tolerance \<open>tol\<close>; any other
  request leaves the state as it is. With \<open>tol = 0\<close> this is the
  specification's ``uptime is the elapsed time truncated to whole seconds''
  (section 4.1); with \<open>tol = 1\<close> it admits the float64 carry of
  \<open>Duration.Seconds\<close>. The abstraction reads the elapsed time off the two
  monotonic readings, saturated as \<open>time.Since\<close> saturates it, and the reported
  uptimes off the log of answers.
\<close>

subsection \<open>The abstract specification\<close>

record health_spec =
  hs_elapsed :: int
  hs_reported :: "int list"

definition spec_init :: health_spec where
  "spec_init = \<lparr>hs_elapsed = 0, hs_reported = []\<rparr>"

inductive spec_step :: "int \<Rightarrow> health_spec \<Rightarrow> health_spec \<Rightarrow> bool" for tol :: int where
  elapse: "hs_elapsed a \<le> e \<Longrightarrow> spec_step tol a (a\<lparr>hs_elapsed := e\<rparr>)"
| report: "hs_elapsed a div 1000000000 \<le> u \<Longrightarrow> u \<le> hs_elapsed a div 1000000000 + tol \<Longrightarrow>
           spec_step tol a (a\<lparr>hs_reported := hs_reported a @ [u]\<rparr>)"
| quiet: "spec_step tol a a"

inductive spec_reachable :: "int \<Rightarrow> health_spec \<Rightarrow> bool" for tol :: int where
  init: "spec_reachable tol spec_init"
| step: "spec_reachable tol a \<Longrightarrow> spec_step tol a b \<Longrightarrow> spec_reachable tol b"

subsection \<open>Abstraction of the server state\<close>

definition elapsed :: "server \<Rightarrow> int" where
  "elapsed s = min (sint (srv_now s) - sint (srv_start s)) (2 ^ 63 - 1)"

definition server_abs :: "server \<Rightarrow> health_spec" where
  "server_abs s = \<lparr>hs_elapsed = elapsed s, hs_reported = health_uptimes (srv_log s)\<rparr>"

text \<open>The same request as in \<open>example_run\<close>, served 2^24 s and 999999999 ns
  after the start.\<close>

abbreviation late_run :: server where
  "late_run \<equiv> \<lparr>srv_env = example_env, srv_start = 0, srv_now = 16777216999999999, srv_wall = 1700000000,
     srv_log = [(example_health_req, dispatch example_env 0 16777216999999999 1700000000 example_health_req)]\<rparr>"

subsection \<open>The abstract specification on its own\<close>

text \<open>Under the exact specification the reports are sorted and never exceed the
  elapsed whole seconds.\<close>

lemma spec_exact_inv:
  assumes "spec_reachable 0 a"
  shows "0 \<le> hs_elapsed a \<and> sorted (hs_reported a) \<and>
         (\<forall>u\<in>set (hs_reported a). 0 \<le> u \<and> u \<le> hs_elapsed a div 1000000000)"
  using assms
proof (induction rule: spec_reachable.induct)
  case init
  then show ?case by (simp add: spec_init_def)
next
  case (step a b)
  from step.hyps(2) step.IH show ?case
  proof (cases rule: spec_step.cases)
    case (elapse e)
    have "hs_elapsed a div 1000000000 \<le> e div 1000000000"
      using elapse(2) by (simp add: zdiv_mono1)
    with elapse step.IH show ?thesis by fastforce
  next
    case (report u)
    then show ?thesis
      using step.IH by (auto simp: sorted_append)
  qed simp
qed

subsection \<open>The server's uptime against the elapsed time\<close>

lemma uptime_seconds_elapsed:
  "server_inv s \<Longrightarrow> uptime_seconds (srv_start s) (srv_now s) = uptime_seconds_of (elapsed s)"
  by (simp add: uptime_seconds_def elapsed_def sub_mono_elapsed server_inv_def)

lemma elapsed_range: "server_inv s \<Longrightarrow> 0 \<le> elapsed s \<and> elapsed s < 2 ^ 63"
  by (simp add: elapsed_def server_inv_def)

lemma uptime_elapsed_bounds:
  assumes "server_inv s"
  shows "elapsed s div 1000000000 \<le> uptime_seconds (srv_start s) (srv_now s)"
    and "uptime_seconds (srv_start s) (srv_now s) \<le> elapsed s div 1000000000 + 1"
  using uptime_seconds_of_bounds [of "elapsed s"] elapsed_range [OF assms]
    uptime_seconds_elapsed [OF assms] by auto

lemma uptime_elapsed_exact:
  assumes "server_inv s" "elapsed s < 2 ^ 24 * 1000000000"
  shows "uptime_seconds (srv_start s) (srv_now s) = elapsed s div 1000000000"
  using uptime_seconds_of_exact [of "elapsed s"] elapsed_range [OF assms(1)] assms(2)
    uptime_seconds_elapsed [OF assms(1)] by simp

lemma server_step_clock:
  assumes "server_step s s'"
  shows "srv_start s' = srv_start s" "sint (srv_now s) \<le> sint (srv_now s')"
  using assms by (auto elim: server_step_cases)

lemma elapsed_step_mono: "server_step s s' \<Longrightarrow> elapsed s \<le> elapsed s'"
  using server_step_clock [of s s'] by (auto simp: elapsed_def)

subsection \<open>Simulation\<close>

text \<open>One step of the server is one step of the specification, whatever the
  tolerance, as long as the uptime the server would report now lies within it.\<close>

lemma server_step_abs:
  assumes "server_step s s'"
    and "elapsed s div 1000000000 \<le> uptime_seconds (srv_start s) (srv_now s)"
    and "uptime_seconds (srv_start s) (srv_now s) \<le> elapsed s div 1000000000 + tol"
  shows "spec_step tol (server_abs s) (server_abs s')"
  using assms(1)
proof (cases rule: server_step.cases)
  case (tick t w)
  have "server_abs s' = (server_abs s)\<lparr>hs_elapsed := elapsed s'\<rparr>"
    using tick by (simp add: server_abs_def elapsed_def)
  then show ?thesis
    using spec_step.elapse [of "server_abs s" "elapsed s'" tol] elapsed_step_mono [OF assms(1)]
    by (simp add: server_abs_def)
next
  case (serve c)
  show ?thesis
  proof (cases "req_method c = ''GET'' \<and> req_path c = ''/health''")
    case True
    then have "server_abs s' = (server_abs s)\<lparr>hs_reported := hs_reported (server_abs s) @
                 [uptime_seconds (srv_start s) (srv_now s)]\<rparr>"
      using serve by (simp add: server_abs_def elapsed_def health_uptimes_served del: health_uptimes.simps)
    then show ?thesis
      using spec_step.report [of "server_abs s" "uptime_seconds (srv_start s) (srv_now s)" tol] assms(2,3)
      by (simp add: server_abs_def)
  next
    case False
    then have "server_abs s' = server_abs s"
      using serve by (simp add: server_abs_def elapsed_def health_uptimes_served del: health_uptimes.simps)
    then show ?thesis
      by (simp add: spec_step.quiet)
  qed
qed

lemma server_abs_init: "server_abs (server_init env t w) = spec_init"
  by (simp add: server_abs_def server_init_def elapsed_def spec_init_def)

subsection \<open>Refinement\<close>

text \<open>C9: every reachable state of the server is, under the abstraction, a
  reachable state of the specification with tolerance one second: time only moves
  forward, and each GET /health reports the elapsed whole seconds or one more.\<close>

theorem server_refines_spec:
  assumes "reachable s"
  shows "spec_reachable 1 (server_abs s)"
  using assms
proof (induction rule: reachable.induct)
  case (init env t w)
  then show ?case
    by (simp add: server_abs_init spec_reachable.init)
next
  case (step s s')
  have "server_inv s"
    using step.hyps(1) by (rule reachable_inv)
  then have "spec_step 1 (server_abs s) (server_abs s')"
    using step.hyps(2) uptime_elapsed_bounds by (intro server_step_abs) simp_all
  with step.IH show ?case
    by (rule spec_reachable.step)
qed

theorem server_refines_spec_witness:
  "reachable example_run \<and> spec_reachable 1 (server_abs example_run)"
  using server_refines_spec [OF reachable_example_run] reachable_example_run by blast

text \<open>C8: while less than 2^24 seconds (about 194 days) have elapsed, the server
  refines the exact specification: each GET /health reports the elapsed time
  truncated to whole seconds, as section 4.1 of the specification says.\<close>

theorem server_refines_exact_spec:
  assumes "reachable s" "elapsed s < 2 ^ 24 * 1000000000"
  shows "spec_reachable 0 (server_abs s)"
  using assms
proof (induction rule: reachable.induct)
  case (init env t w)
  then show ?case
    by (simp add: server_abs_init spec_reachable.init)
next
  case (step s s')
  have inv: "server_inv s"
    using step.hyps(1) by (rule reachable_inv)
  have bound: "elapsed s < 2 ^ 24 * 1000000000"
    using elapsed_step_mono [OF step.hyps(2)] step.prems by simp
  then have "spec_step 0 (server_abs s) (server_abs s')"
    using step.hyps(2) uptime_elapsed_exact [OF inv bound] by (intro server_step_abs) simp_all
  with step.IH [OF bound] show ?case
    by (rule spec_reachable.step)
qed

theorem server_refines_exact_spec_witness:
  "reachable example_run \<and> elapsed example_run < 2 ^ 24 * 1000000000 \<and>
   spec_reachable 0 (server_abs example_run)"
proof -
  have "elapsed example_run < 2 ^ 24 * 1000000000"
    by (simp add: elapsed_def)
  then show ?thesis
    using server_refines_exact_spec [OF reachable_example_run] reachable_example_run by blast
qed

text \<open>C10: past 2^24 seconds the server does not refine the exact specification:
  a GET /health served 2^24 s and 999999999 ns after the start reports 2^24 + 1
  seconds, which no run of the specification reports at that elapsed time.\<close>

theorem exact_spec_violated:
  "reachable late_run \<and> \<not> spec_reachable 0 (server_abs late_run)"
proof -
  have r: "reachable late_run"
    by (rule reachable_one_request) simp
  have d: "sint (sub_mono 16777216999999999 (0::int64)) = 16777216999999999"
    using sub_mono_elapsed [of 0 16777216999999999] by simp
  have u: "uptime_seconds 0 16777216999999999 = 16777217"
    using uptime_seconds_of_carry by (simp add: uptime_seconds_def d)
  have abs: "server_abs late_run = \<lparr>hs_elapsed = 16777216999999999, hs_reported = [16777217]\<rparr>"
    by (simp add: server_abs_def elapsed_def health_uptimes_served u del: health_uptimes.simps)
  have "\<not> spec_reachable 0 \<lparr>hs_elapsed = 16777216999999999, hs_reported = [16777217]\<rparr>"
    using spec_exact_inv [of "\<lparr>hs_elapsed = 16777216999999999, hs_reported = [16777217]\<rparr>"] by auto
  with r abs show ?thesis
    by simp
qed

end
