(* ===== verification/Tests.thy ===== *)
theory Tests
  imports Server
begin

text \<open>
  The handler tests of \<open>src/app_go/main_test.go\<close>. Each test builds a request
  with \<open>httptest.NewRequest\<close>, serves it with \<open>e.ServeHTTP\<close> on the Echo instance
  returned by \<open>setupEcho()\<close>, and checks only that the recorded status is 200.
  \<open>setupEcho\<close> is not defined anywhere in the package, so the tests do not
  compile; they are modelled here against the Echo instance that \<open>main\<close> builds
  (\<open>Server.dispatch\<close>), which is what such a function would have to return.
  \<open>httptest.NewRequest\<close> sets the remote address \<open>192.0.2.1:1234\<close> and no
  headers, so Echo's \<open>RealIP\<close> is the host part of that address and the user
  agent is empty.
\<close>

definition new_request :: "string \<Rightarrow> string \<Rightarrow> http_request" where
  "new_request method target =
     \<lparr>req_method = method, req_path = target, req_remote_addr = ''192.0.2.1:1234'',
      req_user_agent = [], req_real_ip = ''192.0.2.1''\<rparr>"

text \<open>\<open>TestMainHandler\<close> (lines 9--17) and \<open>TestHealthHandler\<close> (lines 19--27):
  the assertion each test makes, at whatever host facts and clock readings the
  test runs with.\<close>

definition test_main_handler :: "host_env \<Rightarrow> int64 \<Rightarrow> int64 \<Rightarrow> int \<Rightarrow> bool" where
  "test_main_handler env start now wall \<longleftrightarrow>
     resp_status (dispatch env start now wall (new_request ''GET'' ''/'')) = 200"

definition test_health_handler :: "host_env \<Rightarrow> int64 \<Rightarrow> int64 \<Rightarrow> int \<Rightarrow> bool" where
  "test_health_handler env start now wall \<longleftrightarrow>
     resp_status (dispatch env start now wall (new_request ''GET'' ''/health'')) = 200"

text \<open>With \<open>setupEcho\<close> standing for the Echo instance of \<open>main\<close>, the assertions of both tests hold on every host and at every clock reading.\<close>

lemma handler_tests_pass:
  "test_main_handler env start now wall \<and> test_health_handler env start now wall"
  by (simp add: test_main_handler_def test_health_handler_def new_request_def dispatch_status_200)

end
