(* ===== verification/Concurrency.thy ===== *)
theory Concurrency
  imports Server
begin

text \<open>
  Concurrent requests. \<open>e.Start\<close> (\<open>src/app_go/main.go\<close> line 176) serves every
  connection in its own goroutine, so several handlers can be in flight at once
  (section 5 of the specification). A handler runs at one instant, reading the
  clocks then, and its answer is written when that goroutine finishes; answers
  of different requests can leave in any order. The state records the requests
  in flight with the monotonic reading at which their handler ran, and the
  answers sent so far in the order they were sent. \<open>Server.server_step\<close> is
  the special case where every request finishes before the next one starts.
\<close>

type_synonym served = "http_request \<times> int64 \<times> http_response"

record cserver =
  cs_env :: host_env
  cs_start :: int64
  cs_now :: int64
  cs_wall :: int
  cs_pending :: "served list"
  cs_log :: "served list"

definition cserver_init :: "host_env \<Rightarrow> int64 \<Rightarrow> int \<Rightarrow> cserver" where
  "cserver_init env t w =
     \<lparr>cs_env = env, cs_start = t, cs_now = t, cs_wall = w, cs_pending = [], cs_log = []\<rparr>"

text \<open>Time passes; a handler runs at the current readings and its answer waits to
  be sent; one of the waiting answers, any of them, is sent.\<close>

inductive cstep :: "cserver \<Rightarrow> cserver \<Rightarrow> bool" where
  ctick: "sint (cs_now s) \<le> sint t \<Longrightarrow> cstep s (s\<lparr>cs_now := t, cs_wall := w\<rparr>)"
| cbegin: "cstep s (s\<lparr>cs_pending := cs_pending s @
             [(c, cs_now s, dispatch (cs_env s) (cs_start s) (cs_now s) (cs_wall s) c)]\<rparr>)"
| cfinish: "i < length (cs_pending s) \<Longrightarrow>
            cstep s (s\<lparr>cs_pending := take i (cs_pending s) @ drop (Suc i) (cs_pending s),
                       cs_log := cs_log s @ [cs_pending s ! i]\<rparr>)"

inductive creachable :: "cserver \<Rightarrow> bool" where
  init: "creachable (cserver_init env t w)"
| step: "creachable s \<Longrightarrow> cstep s s' \<Longrightarrow> creachable s'"

text \<open>The sent answers without their readings, as \<open>Server.health_uptimes\<close> reads them.\<close>

definition sent :: "cserver \<Rightarrow> (http_request \<times> http_response) list" where
  "sent s = map (\<lambda>(c, _, r). (c, r)) (cs_log s)"

text \<open>An answer computed at reading \<open>r\<close> is the one \<open>dispatch\<close> gives there.\<close>

definition answered_at :: "cserver \<Rightarrow> served \<Rightarrow> bool" where
  "answered_at s x \<longleftrightarrow> (case x of (c, r, resp) \<Rightarrow>
     sint (cs_start s) \<le> sint r \<and> sint r \<le> sint (cs_now s) \<and>
     (\<exists>w. resp = dispatch (cs_env s) (cs_start s) r w c))"

definition cserver_inv :: "cserver \<Rightarrow> bool" where
  "cserver_inv s \<longleftrightarrow> sint (cs_start s) \<le> sint (cs_now s) \<and>
     (\<forall>x \<in> set (cs_pending s) \<union> set (cs_log s). answered_at s x)"

text \<open>The two GET /health of the witnesses, one second apart, sent in the
  opposite order.\<close>

abbreviation crossed_run :: cserver where
  "crossed_run \<equiv> \<lparr>cs_env = example_env, cs_start = 0, cs_now = 2000000000, cs_wall = 1700000002,
     cs_pending = [],
     cs_log = [(example_health_req, 2000000000, dispatch example_env 0 2000000000 1700000002 example_health_req),
               (example_health_req, 1000000000, dispatch example_env 0 1000000000 1700000001 example_health_req)]\<rparr>"

subsection \<open>The invariant\<close>

lemma cserver_inv_init: "cserver_inv (cserver_init env t w)"
  by (simp add: cserver_inv_def cserver_init_def)

lemma answered_at_tick:
  "answered_at s x \<Longrightarrow> sint (cs_now s) \<le> sint t \<Longrightarrow> answered_at (s\<lparr>cs_now := t, cs_wall := w\<rparr>) x"
  by (auto simp: answered_at_def split: prod.splits)

lemma cserver_inv_sub:
  assumes "cserver_inv s" "cs_start s' = cs_start s" "cs_now s' = cs_now s" "cs_env s' = cs_env s"
    and "set (cs_pending s') \<union> set (cs_log s') \<subseteq> set (cs_pending s) \<union> set (cs_log s)"
  shows "cserver_inv s'"
proof -
  have eq: "\<And>x. answered_at s' x = answered_at s x"
    using assms(2-4) by (simp add: answered_at_def)
  show ?thesis
    using assms(1,2,3,5) unfolding cserver_inv_def eq by auto
qed

lemma cstep_inv:
  assumes "cstep s s'" "cserver_inv s"
  shows "cserver_inv s'"
  using assms
proof (induction rule: cstep.induct)
  case (ctick s t w)
  then show ?case
    by (auto simp: cserver_inv_def intro: answered_at_tick)
next
  case (cbegin s c)
  then show ?case
    by (auto simp: cserver_inv_def answered_at_def)
next
  case (cfinish i s)
  have "set (take i (cs_pending s) @ drop (Suc i) (cs_pending s)) \<subseteq> set (cs_pending s)"
    by (auto dest: in_set_takeD in_set_dropD)
  moreover have "cs_pending s ! i \<in> set (cs_pending s)"
    using cfinish.hyps by simp
  ultimately have "set (take i (cs_pending s) @ drop (Suc i) (cs_pending s)) \<union>
      set (cs_log s @ [cs_pending s ! i]) \<subseteq> set (cs_pending s) \<union> set (cs_log s)"
    by auto
  then show ?case
    by (intro cserver_inv_sub [OF cfinish.prems]) simp_all
qed

lemma creachable_inv: "creachable s \<Longrightarrow> cserver_inv s"
  by (induction rule: creachable.induct) (auto intro: cserver_inv_init cstep_inv)

lemma health_uptimes_dispatch:
  "req_method c = ''GET'' \<Longrightarrow> req_path c = ''/health'' \<Longrightarrow>
   health_uptimes [(c, dispatch env start r w c)] = [uptime_seconds start r]"
  by (simp add: health_uptimes_served del: health_uptimes.simps)

lemma logged_health:
  assumes "creachable s" "(c, r, resp) \<in> set (cs_log s)" "req_method c = ''GET''" "req_path c = ''/health''"
  shows "health_uptimes [(c, resp)] = [uptime_seconds (cs_start s) r] \<and>
         sint (cs_start s) \<le> sint r \<and> sint r \<le> sint (cs_now s)"
proof -
  have "answered_at s (c, r, resp)"
    using creachable_inv [OF assms(1)] assms(2) by (auto simp: cserver_inv_def)
  then obtain w where "sint (cs_start s) \<le> sint r" "sint r \<le> sint (cs_now s)"
      "resp = dispatch (cs_env s) (cs_start s) r w c"
    by (auto simp: answered_at_def)
  then show ?thesis
    using health_uptimes_dispatch [OF assms(3,4)] by simp
qed

lemma creachable_crossed_run: "creachable crossed_run"
proof -
  let ?A = "(example_health_req, 1000000000, dispatch example_env 0 1000000000 1700000001 example_health_req)"
  let ?B = "(example_health_req, 2000000000, dispatch example_env 0 2000000000 1700000002 example_health_req)"
  have r0: "creachable (cserver_init example_env 0 1700000000)"
    by (rule creachable.init)
  have r1: "creachable \<lparr>cs_env = example_env, cs_start = 0, cs_now = 1000000000, cs_wall = 1700000001,
      cs_pending = [], cs_log = []\<rparr>"
    using creachable.step [OF r0 cstep.ctick [of "cserver_init example_env 0 1700000000" 1000000000 1700000001]]
    by (simp add: cserver_init_def)
  have r2: "creachable \<lparr>cs_env = example_env, cs_start = 0, cs_now = 1000000000, cs_wall = 1700000001,
      cs_pending = [?A], cs_log = []\<rparr>"
    using creachable.step [OF r1 cstep.cbegin [of _ example_health_req]] by simp
  have r3: "creachable \<lparr>cs_env = example_env, cs_start = 0, cs_now = 2000000000, cs_wall = 1700000002,
      cs_pending = [?A], cs_log = []\<rparr>"
    using creachable.step [OF r2 cstep.ctick [of _ 2000000000 1700000002]] by simp
  have r4: "creachable \<lparr>cs_env = example_env, cs_start = 0, cs_now = 2000000000, cs_wall = 1700000002,
      cs_pending = [?A, ?B], cs_log = []\<rparr>"
    using creachable.step [OF r3 cstep.cbegin [of _ example_health_req]] by simp
  have r5: "creachable \<lparr>cs_env = example_env, cs_start = 0, cs_now = 2000000000, cs_wall = 1700000002,
      cs_pending = [?A], cs_log = [?B]\<rparr>"
    using creachable.step [OF r4 cstep.cfinish [of 1]] by simp
  show ?thesis
    using creachable.step [OF r5 cstep.cfinish [of 0]] by simp
qed

subsection \<open>Properties of concurrent serving\<close>

text \<open>C11: under concurrency the uptimes sent by GET /health are ordered by the
  instant each handler ran: of two answers sent, the one whose handler read the
  monotonic clock first reports at most the other's uptime, and both are
  non-negative, whatever order they were sent in.\<close>

theorem concurrent_uptimes_follow_readings:
  assumes "creachable s"
    and "(c1, r1, resp1) \<in> set (cs_log s)" "req_method c1 = ''GET''" "req_path c1 = ''/health''"
    and "(c2, r2, resp2) \<in> set (cs_log s)" "req_method c2 = ''GET''" "req_path c2 = ''/health''"
    and "sint r1 \<le> sint r2"
  shows "\<exists>u1 u2. health_uptimes [(c1, resp1)] = [u1] \<and> health_uptimes [(c2, resp2)] = [u2] \<and>
           0 \<le> u1 \<and> u1 \<le> u2"
proof -
  have h1: "health_uptimes [(c1, resp1)] = [uptime_seconds (cs_start s) r1]" "sint (cs_start s) \<le> sint r1"
    using logged_health [OF assms(1-4)] by simp_all
  have h2: "health_uptimes [(c2, resp2)] = [uptime_seconds (cs_start s) r2]"
    using logged_health [OF assms(1,5-7)] by simp
  have "0 \<le> uptime_seconds (cs_start s) r1"
    using h1(2) by (rule uptime_seconds_nonneg_aux)
  moreover have "uptime_seconds (cs_start s) r1 \<le> uptime_seconds (cs_start s) r2"
    using h1(2) assms(8) by (rule uptime_seconds_le)
  ultimately show ?thesis
    using h1(1) h2 by blast
qed

theorem concurrent_uptimes_follow_readings_witness:
  "creachable crossed_run \<and>
   (example_health_req, 1000000000, dispatch example_env 0 1000000000 1700000001 example_health_req)
     \<in> set (cs_log crossed_run) \<and>
   req_method example_health_req = ''GET'' \<and> req_path example_health_req = ''/health'' \<and>
   (example_health_req, 2000000000, dispatch example_env 0 2000000000 1700000002 example_health_req)
     \<in> set (cs_log crossed_run) \<and>
   sint (1000000000::int64) \<le> sint (2000000000::int64) \<and>
   (\<exists>u1 u2. health_uptimes [(example_health_req, dispatch example_env 0 1000000000 1700000001 example_health_req)] = [u1] \<and>
      health_uptimes [(example_health_req, dispatch example_env 0 2000000000 1700000002 example_health_req)] = [u2] \<and>
      0 \<le> u1 \<and> u1 \<le> u2)"
  using concurrent_uptimes_follow_readings [OF creachable_crossed_run, of example_health_req 1000000000
      "dispatch example_env 0 1000000000 1700000001 example_health_req" example_health_req 2000000000
      "dispatch example_env 0 2000000000 1700000002 example_health_req"] creachable_crossed_run
  by simp

text \<open>C12: the answers of overlapping requests can leave out of order, so the
  uptimes a client receives from GET /health can decrease: a handler that ran at
  1 s and one that ran at 2 s, sent in the opposite order, report 2 and then 1.
  The specification's "repeated GET /health calls never decrease uptime_seconds"
  holds for requests that do not overlap (\<open>Server\<close>), not for concurrent ones.\<close>

theorem concurrent_uptimes_can_decrease:
  "creachable crossed_run \<and> health_uptimes (sent crossed_run) = [2, 1]"
proof -
  have u1: "uptime_seconds 0 1000000000 = 1"
    using uptime_seconds_below [of 0 1000000000] by simp
  have u2: "uptime_seconds 0 2000000000 = 2"
    using uptime_seconds_below [of 0 2000000000] by simp
  have "health_uptimes (sent crossed_run) =
      health_uptimes [(example_health_req, dispatch example_env 0 2000000000 1700000002 example_health_req)] @
      health_uptimes [(example_health_req, dispatch example_env 0 1000000000 1700000001 example_health_req)]"
    unfolding sent_def using health_uptimes_append [of "[_]" "[_]"] by simp
  also have "\<dots> = [2, 1]"
    by (simp add: health_uptimes_dispatch u1 u2 del: health_uptimes.simps)
  finally show ?thesis
    using creachable_crossed_run by simp
qed

end
