(* ===== verification/Spec2Isabelle.thy ===== *)
theory Spec2Isabelle
  imports Refinement Tests Concurrency
begin

text \<open>
  \<^bold>\<open>A verification model of the DevOps info service\<close> (\<open>src/app_go/main.go\<close>).

  The program is one Go file: an Echo web server with two routes. \<open>GET /\<close>
  (\<open>mainHandler\<close>) answers a JSON description of the service, the host, the
  uptime and the request; \<open>GET /health\<close> (\<open>healthHandler\<close>) answers a status,
  a timestamp and the uptime. Both call \<open>getUptime\<close>, which reads the process
  start instant \<open>startTime\<close> (captured once, line 14) against the monotonic clock.
  \<open>main\<close> installs the \<open>Logger\<close> and \<open>Recover\<close> middleware, registers the two
  routes and listens on \<open>HOST:PORT\<close>.

  \<^bold>\<open>Theories and what they model.\<close>
  \<^item> \<open>Prelude\<close>: \<open>int64\<close> as \<open>64 word\<close>, the Go index panic as \<open>go_panic\<close>,
    \<open>fmt %d\<close> as \<open>go_itoa\<close>/\<open>nat_digits\<close> with a reader \<open>parse_int\<close> and their
    roundtrip, Go's truncating \<open>/\<close> and \<open>%\<close> as \<open>sdiv\<close>/\<open>smod\<close>.
  \<^item> \<open>GoTime\<close>: \<open>getUptime\<close> lines 67--68. \<open>sub_mono\<close> is the runtime's
    saturating difference of monotonic readings behind \<open>time.Since\<close>;
    \<open>duration_seconds\<close> is \<open>Duration.Seconds\<close>, \<open>float64(d/1e9) +
    float64(d%1e9)/1e9\<close>, over an executable float64 model (\<open>f64\<close>: sign,
    significand, exponent; every operation rounds to 53 bits, ties to even);
    \<open>uptime_seconds_of\<close> is \<open>int(...)\<close>, truncation. The exact values of the
    floats (\<open>f64_val\<close>, \<open>rounds_to\<close> on the rationals) are devices of the proofs.
  \<^item> \<open>Uptime\<close>: \<open>getUptime\<close> lines 69--91: \<open>uptime_hours\<close>, \<open>uptime_minutes\<close>,
    the pluralised phrases, the list \<open>parts\<close> (\<open>uptime_parts\<close>) and the join
    that reads \<open>parts[0]\<close> (\<open>join_parts\<close>, an empty list is the index panic as
    \<open>Inl\<close>); \<open>get_uptime\<close> is the whole function. \<open>parse_uptime_human\<close> is a
    reader used only to state that the string is unambiguous.
  \<^item> \<open>Calendar\<close>: the civil date of a day number as Go's \<open>time\<close> package
    computes it (\<open>civil_from_days\<close>, 400-year eras of 146097 days) and its
    inverse \<open>days_from_civil\<close>, a device of the statements.
  \<^item> \<open>Timestamp\<close>: \<open>time.Now().UTC().Format(time.RFC3339)\<close> (lines 126, 148) on
    whole Unix seconds: floor division into days and seconds of the day, the
    civil date, and Go's zero-padded \<open>appendInt\<close> (\<open>append_int\<close>).
    \<open>parse_rfc3339\<close> is a reader (with \<open>Monad_Syntax\<close> over \<open>option\<close>) used
    to state that the output is a valid timestamp.
  \<^item> \<open>Handlers\<close>: the response structs (lines 16--64) as records with their JSON
    encodings by the \<open>json\<close> tags into a \<open>json\<close> value, \<open>getSystemInfo\<close> over an
    explicit record of host facts (\<open>host_env\<close>; a failing \<open>os.Hostname\<close> is
    \<open>None\<close> and gives the empty name), the client address fallback
    (\<open>client_ip\<close>), \<open>mainHandler\<close> and \<open>healthHandler\<close> as functions of the
    host facts, the start and current monotonic readings, the wall clock and
    the request, returning \<open>go_panic + http_response\<close>.
  \<^item> \<open>Server\<close>: \<open>main\<close>: the listen address from \<open>PORT\<close>/\<open>HOST\<close>
    (\<open>os.Getenv\<close> gives \<open>''''\<close> when unset), the route table, \<open>Recover\<close>
    (\<open>recover_mw\<close>: a panic becomes 500), Echo's dispatch (\<open>dispatch\<close>: exact
    method and path; on a known path 204 without a body for \<open>OPTIONS\<close> and
    405 for any other method; 404 otherwise). The repository pins no Echo
    version (it has no \<open>go.mod\<close>); the router is modelled as Echo v4's. Answers
    carry an optional JSON body (\<open>body_lookup\<close> reads a field of it),
    and the running process as the step relation \<open>server_step\<close> on a
    \<open>server\<close> record (start reading, current monotonic and wall readings, the
    log of requests and answers) with its \<open>reachable\<close> states.
  \<^item> \<open>Refinement\<close>: an abstract specification of what \<open>GET /health\<close>
    promises (\<open>spec_step\<close> on the elapsed nanoseconds and the reported
    uptimes, with a tolerance of 0 or 1 second), the abstraction \<open>server_abs\<close>
    of a server state, and the simulation of \<open>server_step\<close> by \<open>spec_step\<close>.
  \<^item> \<open>Concurrency\<close>: \<open>e.Start\<close> serving each request in its own goroutine:
    \<open>cstep\<close> runs a handler at the current readings (\<open>cbegin\<close>) and sends any
    waiting answer (\<open>cfinish\<close>), in any interleaving with the clock.
  \<^item> \<open>Tests\<close>: \<open>TestMainHandler\<close> and \<open>TestHealthHandler\<close> of
    \<open>main_test.go\<close> as the status assertions they make.

  \<^bold>\<open>What is proved.\<close> The human string is "0 minutes" under a minute, never
  panics, and reads back to the hours and minutes (\<open>Uptime\<close>). The whole
  seconds are the truncated quotient of the elapsed nanoseconds or one more,
  exactly the quotient below \<open>2^24\<close> seconds, non-negative, and monotone in the
  clock; at \<open>2^24\<close> s and 999999999 ns they round up, against the
  specification's ``truncate, no rounding'' (\<open>GoTime\<close>). Both handlers always
  answer 200 with the documented fields, agree on the uptime, and absorb a
  hostname failure (\<open>Handlers\<close>). Every answer's status is fixed by the route
  table (200, 204, 405, 404) and never 500, every advertised endpoint is routed, \<open>GET /health\<close> and
  \<open>GET /\<close> meet the contracts the specification's tests state (a timestamp that
  reads back to the wall-clock second, the request fields, the two endpoints),
  and in every
  reachable state of the server the uptimes sent by \<open>GET /health\<close> are
  non-negative and sorted, proved by rule induction over \<open>server_step\<close> with
  the invariant \<open>server_inv\<close> (\<open>Server\<close>). The server refines the specification
  with a one-second tolerance always, and the exact specification ("truncate to
  whole seconds") for the first \<open>2^24\<close> seconds, and provably not after
  (\<open>Refinement\<close>). \<open>subMono\<close> equals saturating subtraction and the seconds fit
  an \<open>int\<close> (\<open>GoTime\<close>). Every timestamp with a four-digit year reads back to
  its second with every field in range; the calendar core is the bound on the
  year of the era and the day of the year (\<open>Calendar.civil_doe\<close>)
  (\<open>Timestamp\<close>). The civil date is computed by the era/day-of-era algorithm,
  which gives the proleptic Gregorian calendar Go's \<open>time\<close> package uses; it
  is not a transcription of Go's own \<open>absDate\<close> code. The tests' assertions
  hold (\<open>Tests\<close>, a lemma: they check only the status). Under concurrent serving the
  uptimes are ordered by the instant each handler ran, but answers of
  overlapping requests can be received in decreasing order (\<open>Concurrency\<close>).

  \<^bold>\<open>Bounds.\<close> Monotonic readings and durations are \<open>int64\<close> nanoseconds
  (\<open>64 word\<close>, read with \<open>sint\<close>), so elapsed times saturate at \<open>2^63 - 1\<close>
  ns; whole seconds therefore stay below \<open>2^34\<close>, far inside the 53-bit
  float64 significand, and only finite normal floats occur, which is why
  infinities, NaN and subnormals are not modelled. \<open>2^24\<close> s is the point from
  which a float64 near a whole second can no longer hold the nanoseconds. No
  definition uses fuel: every recursion (\<open>nat_digits\<close>, \<open>nbits\<close>,
  \<open>jlookup\<close>, \<open>health_uptimes\<close>) terminates by \<open>fun\<close>'s own proof.

  \<^bold>\<open>Not modelled.\<close> Echo's implementation, the \<open>Logger\<close> middleware (a log line
  only), the byte-level JSON text and HTTP framing (answers are JSON values and
  status codes), the resolution of \<open>c.RealIP()\<close> from proxy headers (an input
  of the request record), the operating-system calls behind the host facts (an
  input record), and the fractional seconds of the wall clock (RFC 3339 as Go
  prints it drops them). A handler is taken to read both clocks at one instant
  (it reads the monotonic clock in \<open>getUptime\<close> and the wall clock a few
  statements later). The handlers share no mutable state, so the interleavings
  that matter are those of whole handlers and of sending their answers, which
  \<open>Concurrency\<close> models; \<open>Server\<close> is the sequential case. The tests
  (\<open>main_test.go\<close>) call \<open>setupEcho\<close>, which does not exist, and do not
  compile; they are modelled against the Echo instance of \<open>main\<close>. Timestamps
  of years outside 0000--9999 (Go prints them with more digits or a sign) are
  outside the roundtrip theorem.
\<close>

end
